theory Spec2Isabelle
  imports Main "HOL-Library.AList" "HOL-Library.Sublist"
begin

section \<open>JavaScript values\<close>

text \<open>
  The values that reach \<^verbatim>\<open>lib/iotransit-wb.js\<close>: the constructor argument, the
  option values, decoded JSON frames and outbound messages. Numbers are integers (the
  module's own numbers are a port and a delay in milliseconds); an object is the list of
  its own properties, looked up by key, and holds data only: no function-valued
  property, no prototype other than \<^verbatim>\<open>Object.prototype\<close>, and no key that hides a
  method the module calls on it (\<^verbatim>\<open>hasOwnProperty\<close>).
\<close>

datatype jsval =
    JUndefined
  | JNull
  | JBool bool
  | JNum int
  | JStr string
  | JArr "jsval list"
  | JObj "(string \<times> jsval) list"

type_synonym jsobj = "(string \<times> jsval) list"

text \<open>
  What the module throws: \<^verbatim>\<open>throw new Error(msg)\<close> with its message, the engine's
  TypeError (tagged with the property whose read or call failed), and the SyntaxError
  of \<^verbatim>\<open>JSON.parse\<close>.
\<close>

datatype error =
    JsError string
  | JsTypeError string
  | JsSyntaxError

text \<open>Truthiness, as \<^verbatim>\<open>||\<close>, \<^verbatim>\<open>&&\<close> and \<^verbatim>\<open>if\<close> read a value.\<close>

fun truthy :: "jsval \<Rightarrow> bool" where
  "truthy JUndefined = False"
| "truthy JNull = False"
| "truthy (JBool b) = b"
| "truthy (JNum n) = (n \<noteq> 0)"
| "truthy (JStr s) = (s \<noteq> [])"
| "truthy (JArr xs) = True"
| "truthy (JObj kvs) = True"

text \<open>\<^verbatim>\<open>a || b\<close>: the left operand when it is truthy, the right one otherwise.\<close>

definition js_or :: "jsval \<Rightarrow> jsval \<Rightarrow> jsval" where
  "js_or a b = (if truthy a then a else b)"

text \<open>\<^verbatim>\<open>typeof v === 'string'\<close> and \<^verbatim>\<open>Array.isArray(v)\<close>.\<close>

fun is_string :: "jsval \<Rightarrow> bool" where
  "is_string (JStr s) = True"
| "is_string v = False"

fun isArray :: "jsval \<Rightarrow> bool" where
  "isArray (JArr xs) = True"
| "isArray v = False"

text \<open>
  Own properties of an object: \<^verbatim>\<open>o.hasOwnProperty(k)\<close>, the read \<^verbatim>\<open>o.k\<close>
  (\<^verbatim>\<open>undefined\<close> when the key is missing) and the assignment \<^verbatim>\<open>o.k = v\<close>
  (an existing key keeps its place, a new one goes last).
\<close>

definition hasOwnProperty :: "jsobj \<Rightarrow> string \<Rightarrow> bool" where
  "hasOwnProperty obj k = (map_of obj k \<noteq> None)"

definition get_prop :: "jsobj \<Rightarrow> string \<Rightarrow> jsval" where
  "get_prop obj k = (case map_of obj k of None \<Rightarrow> JUndefined | Some v \<Rightarrow> v)"

definition set_prop :: "jsobj \<Rightarrow> string \<Rightarrow> jsval \<Rightarrow> jsobj" where
  "set_prop obj k v = AList.update k v obj"

text \<open>
  ToString, as string concatenation and \<^verbatim>\<open>String.prototype.indexOf\<close> apply it.
  An integer prints in decimal, which is what JavaScript prints for an integer of magnitude
  below \<open>10^21\<close>; larger numbers, which JavaScript prints with an exponent, and
  fractions, NaN and the negative zero are outside the model. An array joins
  its elements with commas, \<^verbatim>\<open>null\<close> and \<^verbatim>\<open>undefined\<close> elements printing as
  nothing; a plain object prints as \<^verbatim>\<open>[object Object]\<close>.
\<close>

function nat_digits :: "nat \<Rightarrow> string" where
  "nat_digits n =
     (if n < 10 then [''0123456789'' ! n]
      else nat_digits (n div 10) @ [''0123456789'' ! (n mod 10)])"
  by pat_completeness auto
termination
  by (relation "measure id") auto

declare nat_digits.simps [simp del]

fun join_comma :: "string list \<Rightarrow> string" where
  "join_comma [] = []"
| "join_comma [s] = s"
| "join_comma (s # t # ts) = s @ '','' @ join_comma (t # ts)"

fun is_nullish :: "jsval \<Rightarrow> bool" where
  "is_nullish JUndefined = True"
| "is_nullish JNull = True"
| "is_nullish v = False"

fun to_string :: "jsval \<Rightarrow> string" where
  "to_string JUndefined = ''undefined''"
| "to_string JNull = ''null''"
| "to_string (JBool b) = (if b then ''true'' else ''false'')"
| "to_string (JNum n) =
     (if n < 0 then CHR ''-'' # nat_digits (nat (- n)) else nat_digits (nat n))"
| "to_string (JStr s) = s"
| "to_string (JArr xs) =
     join_comma (map (\<lambda>x. if is_nullish x then [] else to_string x) xs)"
| "to_string (JObj kvs) = ''[object Object]''"

section \<open>The constructor\<close>

definition AUTH_USER :: jsval where "AUTH_USER = JStr ''api1''"
definition AUTH_PASS :: jsval where "AUTH_PASS = JStr ''external''"
definition WEBSOCKETBRIDGE_URI :: jsval where "WEBSOCKETBRIDGE_URI = JStr ''127.0.0.1''"
definition WEBSOCKETBRIDGE_PORT :: jsval where "WEBSOCKETBRIDGE_PORT = JNum 444"
definition WEBSOCKETBRIDGE_SUBPROTOCOL :: jsval where
  "WEBSOCKETBRIDGE_SUBPROTOCOL = JStr ''wb.iotransit.net''"
definition WEBSOCKETBRIDGE_ORIGIN :: jsval where "WEBSOCKETBRIDGE_ORIGIN = JStr ''bridge''"
definition AUTO_RECONNECT :: jsval where "AUTO_RECONNECT = JBool True"
definition RECONNECTION_TIMER :: jsval where "RECONNECTION_TIMER = JNum 5000"
definition SECURE_WEBSOCKET :: jsval where "SECURE_WEBSOCKET = JBool True"

text \<open>
  The manager object. \<open>wb\<close> is the reference to the current WebSocketClient: \<open>None\<close>
  is \<^verbatim>\<open>undefined\<close>, its value until \<^verbatim>\<open>connect()\<close> assigns it.
\<close>

record manager =
  options :: jsobj
  websocketBridgeConnected :: bool
  authDevice :: string
  authDomain :: string
  authenticated :: bool
  wb :: "nat option"

text \<open>
  Lines 48 to 56: the argument becomes \<^verbatim>\<open>this.options\<close>. An array is an object
  to \<^verbatim>\<open>typeof\<close> and has no own \<^verbatim>\<open>appletId\<close>. A number or a boolean takes no
  branch, \<^verbatim>\<open>this.options\<close> stays undefined and line 57 reads
  \<^verbatim>\<open>hasOwnProperty\<close> of undefined.
\<close>

fun take_options :: "jsval \<Rightarrow> error + jsobj" where
  "take_options JUndefined = Inl (JsError ''mandatory appletId not passed to constructor'')"
| "take_options JNull = Inl (JsError ''mandatory appletId not passed to constructor'')"
| "take_options (JObj kvs) =
     (if \<not> hasOwnProperty kvs ''appletId''
      then Inl (JsError ''mandatory appletId not provided in config'')
      else Inr kvs)"
| "take_options (JArr xs) = Inl (JsError ''mandatory appletId not provided in config'')"
| "take_options (JStr s) = Inr (set_prop [] ''appletId'' (JStr s))"
| "take_options (JBool b) = Inl (JsTypeError ''hasOwnProperty'')"
| "take_options (JNum n) = Inl (JsTypeError ''hasOwnProperty'')"

text \<open>Lines 57 to 65: the accepted tags.\<close>

definition set_acceptTags :: "jsobj \<Rightarrow> jsobj" where
  "set_acceptTags opts =
     (if \<not> hasOwnProperty opts ''accepts''
      then set_prop opts ''acceptTags'' (JArr [get_prop opts ''appletId''])
      else if \<not> isArray (get_prop opts ''accepts'') \<and> is_string (get_prop opts ''accepts'')
      then set_prop opts ''acceptTags'' (JArr [get_prop opts ''accepts''])
      else if isArray (get_prop opts ''accepts'')
      then set_prop opts ''acceptTags'' (get_prop opts ''accepts'')
      else opts)"

text \<open>
  Lines 66 to 74. \<^verbatim>\<open>this.options && this.options.k || D\<close> with \<^verbatim>\<open>this.options\<close>
  an object (truthy) is \<^verbatim>\<open>this.options.k || D\<close>; the two flags test the own
  property instead.
\<close>

definition default_or :: "jsobj \<Rightarrow> string \<Rightarrow> jsval \<Rightarrow> jsobj" where
  "default_or opts k d = set_prop opts k (js_or (get_prop opts k) d)"

definition default_own :: "jsobj \<Rightarrow> string \<Rightarrow> jsval \<Rightarrow> jsobj" where
  "default_own opts k d =
     set_prop opts k (if hasOwnProperty opts k then get_prop opts k else d)"

definition set_defaults :: "jsobj \<Rightarrow> jsobj" where
  "set_defaults opts =
     (let o1 = default_or opts ''authUser'' AUTH_USER;
          o2 = default_or o1 ''authPass'' AUTH_PASS;
          o3 = default_or o2 ''websocketBridgeUri'' WEBSOCKETBRIDGE_URI;
          o4 = default_or o3 ''websocketBridgePort'' WEBSOCKETBRIDGE_PORT;
          o5 = default_or o4 ''websocketBridgeSubProtocol'' WEBSOCKETBRIDGE_SUBPROTOCOL;
          o6 = default_or o5 ''websocketBridgeOrigin'' WEBSOCKETBRIDGE_ORIGIN;
          o7 = default_own o6 ''autoReconnect'' AUTO_RECONNECT;
          o8 = default_or o7 ''reconnectionTimer'' RECONNECTION_TIMER
      in default_own o8 ''secureWebSocket'' SECURE_WEBSOCKET)"

definition new_IoTransitWB :: "jsval \<Rightarrow> error + manager" where
  "new_IoTransitWB arg =
     (case take_options arg of
        Inl e \<Rightarrow> Inl e
      | Inr opts \<Rightarrow>
          Inr \<lparr>options = set_defaults (set_acceptTags opts),
               websocketBridgeConnected = False,
               authDevice = [],
               authDomain = [],
               authenticated = False,
               wb = None\<rparr>)"

section \<open>The transport and the world around the manager\<close>

text \<open>
  \<^verbatim>\<open>JSON.parse\<close> and \<^verbatim>\<open>JSON.stringify\<close> are built-ins of the engine and are
  parameters of the model: \<open>JSON_parse\<close> gives \<open>None\<close> where the engine throws a
  SyntaxError; \<open>JSON_stringify\<close> gives the string, or \<^verbatim>\<open>undefined\<close> for the
  values JSON has no text for.
\<close>

record builtins =
  JSON_parse :: "string \<Rightarrow> jsval option"
  JSON_stringify :: "jsval \<Rightarrow> jsval"

text \<open>
  The \<^verbatim>\<open>websocket\<close> package is the environment. A WebSocketClient and a
  WebSocketConnection are objects in a store, named by their index. Of a client the
  model keeps the \<^verbatim>\<open>connection\<close> property the manager writes on it and the
  \<^verbatim>\<open>webSocketPrefix\<close> captured by the handlers that \<^verbatim>\<open>connect()\<close> registered on
  it; of a connection, the package's \<^verbatim>\<open>connected\<close> flag and the prefix captured by
  its close handler.
\<close>

record client =
  connection :: "nat option"
  client_prefix :: string

record conn =
  connected :: bool
  conn_prefix :: string

text \<open>
  What an observer sees, in order: the calls the manager makes on the transport, the
  events emitted (with the emitter they are emitted on) and the console output.
\<close>

datatype emitter = OnManager | OnConnection nat

datatype effect =
    ClientConnect nat string jsval jsval
  | ConnSendUTF nat jsval
  | ConnSend nat jsval
  | ConnDrop nat
  | Emit emitter string jsval
  | ConsoleLog string

text \<open>
  A pending \<^verbatim>\<open>setTimeout\<close>: every callback of the module is the reconnect closure,
  which captured \<^verbatim>\<open>webSocketPrefix\<close>; the second component is the delay passed.
\<close>

datatype timer = Reconnect string jsval

record world =
  mgr :: manager
  clients :: "client list"
  conns :: "conn list"
  trace :: "effect list"
  timers :: "timer list"

definition new_world :: "manager \<Rightarrow> world" where
  "new_world m = \<lparr>mgr = m, clients = [], conns = [], trace = [], timers = []\<rparr>"

definition log_effect :: "effect \<Rightarrow> world \<Rightarrow> world" where
  "log_effect e w = w\<lparr>trace := trace w @ [e]\<rparr>"

text \<open>\<^verbatim>\<open>this.emit(name, arg)\<close> in a function whose \<^verbatim>\<open>this\<close> is the manager.\<close>

definition emit :: "string \<Rightarrow> jsval \<Rightarrow> world \<Rightarrow> world" where
  "emit name arg w = log_effect (Emit OnManager name arg) w"

text \<open>
  The first argument of every \<^verbatim>\<open>this.wb.connect\<close> call:
  \<^verbatim>\<open>webSocketPrefix + uri + ':' + port + '/'\<close>.
\<close>

definition bridge_url :: "string \<Rightarrow> jsobj \<Rightarrow> string" where
  "bridge_url webSocketPrefix opts =
     webSocketPrefix @ to_string (get_prop opts ''websocketBridgeUri'') @ '':'' @
     to_string (get_prop opts ''websocketBridgePort'') @ ''/''"

text \<open>
  \<^verbatim>\<open>this.wb.connect(url, subprotocol, origin)\<close>, as \<^verbatim>\<open>connect()\<close> and the
  reconnect closure call it; reading \<^verbatim>\<open>this.wb\<close> while it is undefined throws.
\<close>

definition wb_connect :: "string \<Rightarrow> world \<Rightarrow> error + world" where
  "wb_connect webSocketPrefix w =
     (case wb (mgr w) of
        None \<Rightarrow> Inl (JsTypeError ''connect'')
      | Some k \<Rightarrow>
          Inr (log_effect
                 (ClientConnect k (bridge_url webSocketPrefix (options (mgr w)))
                    (get_prop (options (mgr w)) ''websocketBridgeSubProtocol'')
                    (get_prop (options (mgr w)) ''websocketBridgeOrigin'')) w))"

text \<open>
  Lines 90 to 94 and 104 to 108, the end of the connectFailed and close handlers: the
  reconnect closure is armed when \<^verbatim>\<open>autoReconnect\<close> is truthy.
\<close>

definition schedule_reconnect :: "string \<Rightarrow> world \<Rightarrow> world" where
  "schedule_reconnect webSocketPrefix w =
     (if truthy (get_prop (options (mgr w)) ''autoReconnect'')
      then w\<lparr>timers := timers w @
                [Reconnect webSocketPrefix (get_prop (options (mgr w)) ''reconnectionTimer'')]\<rparr>
      else w)"

section \<open>connect(), its handlers, disconnect() and sendWB()\<close>

text \<open>Lines 83 and 84: the scheme of the URL.\<close>

definition scheme :: "jsobj \<Rightarrow> string" where
  "scheme opts = (if truthy (get_prop opts ''secureWebSocket'') then ''wss://'' else ''ws://'')"

text \<open>Lines 85 and 86: a fresh client becomes \<^verbatim>\<open>this.wb\<close> and is asked to connect.\<close>

definition connect :: "world \<Rightarrow> error + world" where
  "connect w =
     (let webSocketPrefix = scheme (options (mgr w));
          k = length (clients w);
          w1 = w\<lparr>clients := clients w @ [\<lparr>connection = None, client_prefix = webSocketPrefix\<rparr>],
                 mgr := (mgr w)\<lparr>wb := Some k\<rparr>\<rparr>
      in wb_connect webSocketPrefix w1)"

text \<open>Lines 87 to 95: client \<open>k\<close> reports that the attempt failed.\<close>

definition on_connectFailed :: "nat \<Rightarrow> string \<Rightarrow> world \<Rightarrow> world" where
  "on_connectFailed k err w =
     (let w1 = w\<lparr>mgr := (mgr w)\<lparr>websocketBridgeConnected := False\<rparr>\<rparr>;
          w2 = emit ''connectionFailed'' (JStr err) w1
      in schedule_reconnect (client_prefix (clients w ! k)) w2)"

text \<open>
  Lines 96 to 112: client \<open>k\<close> hands over an open connection, the new object \<open>c\<close>.
  The error, close and message handlers are registered on \<open>c\<close>; they are
  \<open>on_error\<close>, \<open>on_close\<close> and \<open>on_message\<close> below.
\<close>

definition auth_request :: "jsobj \<Rightarrow> jsval" where
  "auth_request opts =
     JObj [(''t'', JStr ''authapp''),
           (''p'', JObj [(''user'', get_prop opts ''authUser''),
                         (''pass'', get_prop opts ''authPass''),
                         (''accept'', get_prop opts ''acceptTags'')])]"

definition on_connect :: "builtins \<Rightarrow> nat \<Rightarrow> world \<Rightarrow> error + world" where
  "on_connect B k w =
     (let c = length (conns w);
          w1 = w\<lparr>conns := conns w @
                  [\<lparr>connected = True, conn_prefix = client_prefix (clients w ! k)\<rparr>]\<rparr>;
          w2 = log_effect (ConnSendUTF c (JSON_stringify B (auth_request (options (mgr w1))))) w1
      in case wb (mgr w2) of
           None \<Rightarrow> Inl (JsTypeError ''connection'')
         | Some k' \<Rightarrow>
             (let w3 = w2\<lparr>clients := (clients w2)[k' := (clients w2 ! k')\<lparr>connection := Some c\<rparr>]\<rparr>;
                  w4 = w3\<lparr>mgr := (mgr w3)\<lparr>websocketBridgeConnected := True\<rparr>\<rparr>
              in Inr (emit ''connection'' (JStr ''websocket bridge connected'') w4)))"

text \<open>
  Lines 98 to 100. The handler is a \<^verbatim>\<open>function\<close>, not an arrow function: the
  emitter calls a listener with \<^verbatim>\<open>this\<close> set to the emitter itself, here the
  connection \<open>c\<close>, so \<^verbatim>\<open>this.emit\<close> emits on the connection.
\<close>

definition on_error :: "nat \<Rightarrow> string \<Rightarrow> world \<Rightarrow> world" where
  "on_error c err w = log_effect (Emit (OnConnection c) ''connectionError'' (JStr err)) w"

text \<open>
  Lines 101 to 109. The package has cleared the connection's \<^verbatim>\<open>connected\<close> flag
  when it reports the close.
\<close>

definition on_close :: "nat \<Rightarrow> world \<Rightarrow> world" where
  "on_close c w =
     (let w0 = w\<lparr>conns := (conns w)[c := (conns w ! c)\<lparr>connected := False\<rparr>]\<rparr>;
          w1 = w0\<lparr>mgr := (mgr w0)\<lparr>websocketBridgeConnected := False\<rparr>\<rparr>;
          w2 = emit ''connectionClose'' (JStr ''websocket bridge connection closed'') w1
      in schedule_reconnect (conn_prefix (conns w ! c)) w2)"

text \<open>
  Strict equality \<^verbatim>\<open>===\<close>, as \<^verbatim>\<open>Array.prototype.indexOf\<close> compares. Arrays and
  objects are equal only to themselves; the values compared here are a configured tag and
  a field of a freshly decoded frame, never one and the same object.
\<close>

fun strict_equals :: "jsval \<Rightarrow> jsval \<Rightarrow> bool" where
  "strict_equals JUndefined JUndefined = True"
| "strict_equals JNull JNull = True"
| "strict_equals (JBool a) (JBool b) = (a = b)"
| "strict_equals (JNum a) (JNum b) = (a = b)"
| "strict_equals (JStr a) (JStr b) = (a = b)"
| "strict_equals a b = False"

text \<open>The values that are compared by identity.\<close>

fun is_reference :: "jsval \<Rightarrow> bool" where
  "is_reference (JArr xs) = True"
| "is_reference (JObj kvs) = True"
| "is_reference v = False"

text \<open>The index of the first match, or \<open>-1\<close>.\<close>

fun array_indexOf :: "jsval list \<Rightarrow> jsval \<Rightarrow> int" where
  "array_indexOf [] v = - 1"
| "array_indexOf (x # xs) v =
     (if strict_equals x v then 0
      else (let i = array_indexOf xs v in if i = - 1 then - 1 else i + 1))"

fun string_indexOf :: "string \<Rightarrow> string \<Rightarrow> int" where
  "string_indexOf [] u = (if u = [] then 0 else - 1)"
| "string_indexOf (c # cs) u =
     (if prefix u (c # cs) then 0
      else (let i = string_indexOf cs u in if i = - 1 then - 1 else i + 1))"

text \<open>
  The call \<^verbatim>\<open>recv.indexOf(arg)\<close>: an array and a string have the method; reading it
  off \<^verbatim>\<open>undefined\<close> or \<^verbatim>\<open>null\<close> throws, and on a number, a boolean or a data
  object there is no function to call.
\<close>

fun call_indexOf :: "jsval \<Rightarrow> jsval \<Rightarrow> error + int" where
  "call_indexOf (JArr xs) arg = Inr (array_indexOf xs arg)"
| "call_indexOf (JStr s) arg = Inr (string_indexOf s (to_string arg))"
| "call_indexOf recv arg = Inl (JsTypeError ''indexOf'')"

text \<open>
  The read \<^verbatim>\<open>rcvMsg.t\<close> on a decoded frame: it throws on \<^verbatim>\<open>null\<close>, finds the own
  property of an object, and is \<^verbatim>\<open>undefined\<close> on an array, a string, a number and a
  boolean, none of which has a property of that name.
\<close>

fun read_t :: "jsval \<Rightarrow> error + jsval" where
  "read_t JUndefined = Inl (JsTypeError ''t'')"
| "read_t JNull = Inl (JsTypeError ''t'')"
| "read_t (JObj kvs) = Inr (get_prop kvs ''t'')"
| "read_t v = Inr JUndefined"

text \<open>A frame as the package delivers it: text, or binary data of some length.\<close>

datatype message = Utf8 string | Binary nat

text \<open>Lines 113 to 127.\<close>

definition on_message :: "builtins \<Rightarrow> message \<Rightarrow> world \<Rightarrow> error + world" where
  "on_message B message w =
     (case message of
        Utf8 utf8Data \<Rightarrow>
          (case JSON_parse B utf8Data of
             None \<Rightarrow> Inl JsSyntaxError
           | Some rcvMsg \<Rightarrow>
               (case read_t rcvMsg of
                  Inl e \<Rightarrow> Inl e
                | Inr t \<Rightarrow>
                    (case call_indexOf (get_prop (options (mgr w)) ''acceptTags'') t of
                       Inl e \<Rightarrow> Inl e
                     | Inr i \<Rightarrow>
                         if i \<noteq> - 1 \<or> t = JStr ''all''
                         then Inr (emit ''wbMessage'' rcvMsg w)
                         else Inr w)))
      | Binary n \<Rightarrow>
          Inr (log_effect
                 (ConsoleLog (''websocket bridge client received a binary of '' @
                              to_string (JNum (int n)) @ '' bytes'')) w))"

text \<open>Lines 131 to 137.\<close>

definition disconnect :: "world \<Rightarrow> error + world" where
  "disconnect w =
     (if websocketBridgeConnected (mgr w)
      then (case wb (mgr w) of
              None \<Rightarrow> Inl (JsTypeError ''connection'')
            | Some k \<Rightarrow>
                (case connection (clients w ! k) of
                   None \<Rightarrow> Inl (JsTypeError ''drop'')
                 | Some c \<Rightarrow> Inr (log_effect (ConnDrop c) w)))
      else Inr w)"

text \<open>Lines 139 to 146.\<close>

definition sendWB :: "builtins \<Rightarrow> jsval \<Rightarrow> world \<Rightarrow> error + world" where
  "sendWB B sendMsg w =
     (case wb (mgr w) of
        None \<Rightarrow> Inl (JsTypeError ''connection'')
      | Some k \<Rightarrow>
          (case connection (clients w ! k) of
             None \<Rightarrow> Inr (emit ''sendError'' (JStr ''websocket bridge not connected'') w)
           | Some c \<Rightarrow>
               if connected (conns w ! c)
               then Inr (log_effect (ConnSend c (JSON_stringify B sendMsg)) w)
               else Inr (emit ''sendError'' (JStr ''websocket bridge not connected'') w)))"

section \<open>Runs\<close>

text \<open>
  What can happen to a manager: the caller's three calls, the events of the transport
  (named by the client or connection they come from, an error carrying the text of
  \<^verbatim>\<open>err.toString()\<close>) and the firing of a pending timer. An event from a client or
  connection that does not exist, or of a timer that is not pending, cannot occur and
  leaves the world as it is. A fired timer is no longer pending.
\<close>

datatype event =
    CallConnect
  | CallDisconnect
  | CallSendWB jsval
  | ConnectFailed nat string
  | Connect nat
  | ConnError nat string
  | ConnClose nat
  | ConnMessage nat message
  | TimerFire nat

definition fire :: "nat \<Rightarrow> world \<Rightarrow> error + world" where
  "fire i w =
     (case timers w ! i of
        Reconnect webSocketPrefix delay \<Rightarrow>
          wb_connect webSocketPrefix (w\<lparr>timers := take i (timers w) @ drop (Suc i) (timers w)\<rparr>))"

fun step :: "builtins \<Rightarrow> event \<Rightarrow> world \<Rightarrow> error + world" where
  "step B CallConnect w = connect w"
| "step B CallDisconnect w = disconnect w"
| "step B (CallSendWB sendMsg) w = sendWB B sendMsg w"
| "step B (ConnectFailed k err) w =
     (if k < length (clients w) then Inr (on_connectFailed k err w) else Inr w)"
| "step B (Connect k) w = (if k < length (clients w) then on_connect B k w else Inr w)"
| "step B (ConnError c err) w = (if c < length (conns w) then Inr (on_error c err w) else Inr w)"
| "step B (ConnClose c) w = (if c < length (conns w) then Inr (on_close c w) else Inr w)"
| "step B (ConnMessage c message) w =
     (if c < length (conns w) then on_message B message w else Inr w)"
| "step B (TimerFire i) w = (if i < length (timers w) then fire i w else Inr w)"

text \<open>A run stops at the first exception.\<close>

fun run :: "builtins \<Rightarrow> event list \<Rightarrow> world \<Rightarrow> error + world" where
  "run B [] w = Inr w"
| "run B (ev # evs) w = (case step B ev w of Inl e \<Rightarrow> Inl e | Inr w' \<Rightarrow> run B evs w')"

text \<open>
  A session: the construction, then the run on the fresh manager. A constructor that
  throws leaves no manager to call or to connect.
\<close>

definition session :: "builtins \<Rightarrow> jsval \<Rightarrow> event list \<Rightarrow> error + world" where
  "session B arg evs =
     (case new_IoTransitWB arg of Inl e \<Rightarrow> Inl e | Inr m \<Rightarrow> run B evs (new_world m))"

text \<open>Projections of a trace: what the manager's subscribers receive, and the connection attempts.\<close>

fun manager_events :: "effect list \<Rightarrow> (string \<times> jsval) list" where
  "manager_events [] = []"
| "manager_events (Emit OnManager name arg # es) = (name, arg) # manager_events es"
| "manager_events (e # es) = manager_events es"

fun is_attempt :: "effect \<Rightarrow> bool" where
  "is_attempt (ClientConnect k url subprotocol origin) = True"
| "is_attempt e = False"

definition attempts :: "effect list \<Rightarrow> effect list" where
  "attempts es = filter is_attempt es"

fun is_write :: "effect \<Rightarrow> bool" where
  "is_write (ConnSendUTF c v) = True"
| "is_write (ConnSend c v) = True"
| "is_write e = False"

definition writes :: "effect list \<Rightarrow> effect list" where
  "writes es = filter is_write es"

section \<open>What stays true along a run\<close>

text \<open>
  The connection attempt and the pending retry that a manager with options \<open>opts\<close>
  makes: options are read when the call is made, the scheme when \<^verbatim>\<open>connect()\<close> ran.
\<close>

definition attempt_of :: "jsobj \<Rightarrow> nat \<Rightarrow> effect" where
  "attempt_of opts k =
     ClientConnect k (bridge_url (scheme opts) opts)
       (get_prop opts ''websocketBridgeSubProtocol'') (get_prop opts ''websocketBridgeOrigin'')"

definition retry_of :: "jsobj \<Rightarrow> timer" where
  "retry_of opts = Reconnect (scheme opts) (get_prop opts ''reconnectionTimer'')"

text \<open>
  The state of a world that a manager with options \<open>opts\<close> has lived in: the options
  are still the same; once a client exists, \<^verbatim>\<open>this.wb\<close> names one; a connection came
  from some client; every captured scheme is the one the options give; every pending timer
  is the retry, and none is pending unless \<^verbatim>\<open>autoReconnect\<close> is truthy; every attempt
  so far had the same target, and each client was asked to connect at least once.
\<close>

definition consistent :: "jsobj \<Rightarrow> world \<Rightarrow> bool" where
  "consistent opts w \<longleftrightarrow>
     options (mgr w) = opts \<and>
     (clients w \<noteq> [] \<longrightarrow> (\<exists>k. wb (mgr w) = Some k \<and> k < length (clients w))) \<and>
     (conns w \<noteq> [] \<longrightarrow> clients w \<noteq> []) \<and>
     (\<forall>cl \<in> set (clients w). client_prefix cl = scheme opts) \<and>
     (\<forall>cn \<in> set (conns w). conn_prefix cn = scheme opts) \<and>
     (\<forall>t \<in> set (timers w). t = retry_of opts) \<and>
     (\<not> truthy (get_prop opts ''autoReconnect'') \<longrightarrow> timers w = []) \<and>
     (\<forall>e \<in> set (attempts (trace w)). \<exists>k. e = attempt_of opts k) \<and>
     length (clients w) \<le> length (attempts (trace w))"

section \<open>A scenario\<close>

text \<open>
  For closed examples the engine's JSON is replaced by a stand-in that decodes the three
  frames of the lights scenario and no other text, and that writes a value as its
  ToString.
\<close>

definition frame_lights :: string where
  \<open>frame_lights = ''{"t":"lights","p":{"on":true}}''\<close>

definition frame_thermostat :: string where
  \<open>frame_thermostat = ''{"t":"thermostat","p":{}}''\<close>

definition frame_all :: string where
  \<open>frame_all = ''{"t":"all","p":{"shutdown":true}}''\<close>

definition scenario_JSON :: builtins where
  "scenario_JSON =
     \<lparr>JSON_parse = map_of
        [(frame_lights, JObj [(''t'', JStr ''lights''), (''p'', JObj [(''on'', JBool True)])]),
         (frame_thermostat, JObj [(''t'', JStr ''thermostat''), (''p'', JObj [])]),
         (frame_all, JObj [(''t'', JStr ''all''), (''p'', JObj [(''shutdown'', JBool True)])])],
      JSON_stringify = (\<lambda>v. JStr (to_string v))\<rparr>"

text \<open>
  The manager that \<^verbatim>\<open>new IoTransitWB('lights')\<close> builds, and the one built from
  \<^verbatim>\<open>{appletId: 'lights', autoReconnect: false}\<close>; for each, the world after
  \<^verbatim>\<open>connect()\<close> and the transport's connect event.
\<close>

definition lights_manager :: manager where
  "lights_manager =
     \<lparr>options =
        [(''appletId'', JStr ''lights''), (''acceptTags'', JArr [JStr ''lights'']),
         (''authUser'', JStr ''api1''), (''authPass'', JStr ''external''),
         (''websocketBridgeUri'', JStr ''127.0.0.1''), (''websocketBridgePort'', JNum 444),
         (''websocketBridgeSubProtocol'', JStr ''wb.iotransit.net''),
         (''websocketBridgeOrigin'', JStr ''bridge''), (''autoReconnect'', JBool True),
         (''reconnectionTimer'', JNum 5000), (''secureWebSocket'', JBool True)],
      websocketBridgeConnected = False, authDevice = [], authDomain = [],
      authenticated = False, wb = None\<rparr>"

definition quiet_manager :: manager where
  "quiet_manager =
     \<lparr>options =
        [(''appletId'', JStr ''lights''), (''autoReconnect'', JBool False),
         (''acceptTags'', JArr [JStr ''lights'']),
         (''authUser'', JStr ''api1''), (''authPass'', JStr ''external''),
         (''websocketBridgeUri'', JStr ''127.0.0.1''), (''websocketBridgePort'', JNum 444),
         (''websocketBridgeSubProtocol'', JStr ''wb.iotransit.net''),
         (''websocketBridgeOrigin'', JStr ''bridge''),
         (''reconnectionTimer'', JNum 5000), (''secureWebSocket'', JBool True)],
      websocketBridgeConnected = False, authDevice = [], authDomain = [],
      authenticated = False, wb = None\<rparr>"

definition lights_connected :: world where
  "lights_connected =
     \<lparr>mgr = lights_manager\<lparr>websocketBridgeConnected := True, wb := Some 0\<rparr>,
      clients = [\<lparr>connection = Some 0, client_prefix = ''wss://''\<rparr>],
      conns = [\<lparr>connected = True, conn_prefix = ''wss://''\<rparr>],
      trace =
        [ClientConnect 0 ''wss://127.0.0.1:444/'' (JStr ''wb.iotransit.net'') (JStr ''bridge''),
         ConnSendUTF 0 (JSON_stringify scenario_JSON (auth_request (options lights_manager))),
         Emit OnManager ''connection'' (JStr ''websocket bridge connected'')],
      timers = []\<rparr>"

definition quiet_connected :: world where
  "quiet_connected =
     \<lparr>mgr = quiet_manager\<lparr>websocketBridgeConnected := True, wb := Some 0\<rparr>,
      clients = [\<lparr>connection = Some 0, client_prefix = ''wss://''\<rparr>],
      conns = [\<lparr>connected = True, conn_prefix = ''wss://''\<rparr>],
      trace =
        [ClientConnect 0 ''wss://127.0.0.1:444/'' (JStr ''wb.iotransit.net'') (JStr ''bridge''),
         ConnSendUTF 0 (JSON_stringify scenario_JSON (auth_request (options quiet_manager))),
         Emit OnManager ''connection'' (JStr ''websocket bridge connected'')],
      timers = []\<rparr>"

section \<open>Properties of objects and of the constructor\<close>

lemma get_set_prop:
  "get_prop (set_prop obj k v) k' = (if k' = k then v else get_prop obj k')"
  by (simp add: get_prop_def set_prop_def update_conv')

lemma has_set_prop:
  "hasOwnProperty (set_prop obj k v) k' = (k' = k \<or> hasOwnProperty obj k')"
  by (simp add: hasOwnProperty_def set_prop_def update_conv')

lemma get_default_or:
  "get_prop (default_or obj k d) k' =
     (if k' = k then (if truthy (get_prop obj k) then get_prop obj k else d) else get_prop obj k')"
  by (simp add: default_or_def get_set_prop js_or_def)

lemma get_default_own:
  "get_prop (default_own obj k d) k' =
     (if k' = k then (if hasOwnProperty obj k then get_prop obj k else d) else get_prop obj k')"
  by (simp add: default_own_def get_set_prop)

lemma has_default_or: "hasOwnProperty (default_or obj k d) k' = (k' = k \<or> hasOwnProperty obj k')"
  by (simp add: default_or_def has_set_prop)

lemma has_default_own: "hasOwnProperty (default_own obj k d) k' = (k' = k \<or> hasOwnProperty obj k')"
  by (simp add: default_own_def has_set_prop)

lemmas defaults_simps = get_default_or get_default_own has_default_or has_default_own

lemma get_set_defaults_acceptTags:
  "get_prop (set_defaults obj) ''acceptTags'' = get_prop obj ''acceptTags''"
  by (simp add: set_defaults_def Let_def defaults_simps)

lemma has_set_defaults_acceptTags:
  "hasOwnProperty (set_defaults obj) ''acceptTags'' = hasOwnProperty obj ''acceptTags''"
  by (simp add: set_defaults_def Let_def defaults_simps)

lemma set_defaults_keeps:
  "get_prop (set_defaults obj) ''accepts'' = get_prop obj ''accepts''"
  "hasOwnProperty (set_defaults obj) ''accepts'' = hasOwnProperty obj ''accepts''"
  "get_prop (set_defaults obj) ''appletId'' = get_prop obj ''appletId''"
  by (simp_all add: set_defaults_def Let_def defaults_simps)

lemma get_set_defaults_or:
  "get_prop (set_defaults obj) ''authUser'' = js_or (get_prop obj ''authUser'') AUTH_USER"
  "get_prop (set_defaults obj) ''authPass'' = js_or (get_prop obj ''authPass'') AUTH_PASS"
  "get_prop (set_defaults obj) ''websocketBridgeUri'' = js_or (get_prop obj ''websocketBridgeUri'') WEBSOCKETBRIDGE_URI"
  "get_prop (set_defaults obj) ''websocketBridgePort'' = js_or (get_prop obj ''websocketBridgePort'') WEBSOCKETBRIDGE_PORT"
  "get_prop (set_defaults obj) ''websocketBridgeSubProtocol'' = js_or (get_prop obj ''websocketBridgeSubProtocol'') WEBSOCKETBRIDGE_SUBPROTOCOL"
  "get_prop (set_defaults obj) ''websocketBridgeOrigin'' = js_or (get_prop obj ''websocketBridgeOrigin'') WEBSOCKETBRIDGE_ORIGIN"
  "get_prop (set_defaults obj) ''reconnectionTimer'' = js_or (get_prop obj ''reconnectionTimer'') RECONNECTION_TIMER"
  by (simp_all add: set_defaults_def Let_def defaults_simps js_or_def)

lemma get_set_defaults_own:
  "get_prop (set_defaults obj) ''autoReconnect'' =
     (if hasOwnProperty obj ''autoReconnect'' then get_prop obj ''autoReconnect'' else AUTO_RECONNECT)"
  "get_prop (set_defaults obj) ''secureWebSocket'' =
     (if hasOwnProperty obj ''secureWebSocket'' then get_prop obj ''secureWebSocket'' else SECURE_WEBSOCKET)"
  by (simp_all add: set_defaults_def Let_def defaults_simps)

lemma get_set_acceptTags_other:
  "k \<noteq> ''acceptTags'' \<Longrightarrow> get_prop (set_acceptTags obj) k = get_prop obj k"
  by (simp add: set_acceptTags_def get_set_prop)

lemma has_set_acceptTags_other:
  "k \<noteq> ''acceptTags'' \<Longrightarrow> hasOwnProperty (set_acceptTags obj) k = hasOwnProperty obj k"
  by (simp add: set_acceptTags_def has_set_prop)

lemma new_object:
  "hasOwnProperty kvs ''appletId'' \<Longrightarrow>
   new_IoTransitWB (JObj kvs) =
     Inr \<lparr>options = set_defaults (set_acceptTags kvs), websocketBridgeConnected = False,
          authDevice = [], authDomain = [], authenticated = False, wb = None\<rparr>"
  by (simp add: new_IoTransitWB_def)

text \<open>A manager exists only where lines 48 to 56 left an options object.\<close>

lemma constructed:
  assumes "new_IoTransitWB arg = Inr m"
  obtains opts where "take_options arg = Inr opts"
    and "options m = set_defaults (set_acceptTags opts)"
  using assms by (auto simp: new_IoTransitWB_def split: sum.splits)

lemmas DEFAULTS = AUTH_USER_def AUTH_PASS_def WEBSOCKETBRIDGE_URI_def WEBSOCKETBRIDGE_PORT_def
  WEBSOCKETBRIDGE_SUBPROTOCOL_def WEBSOCKETBRIDGE_ORIGIN_def AUTO_RECONNECT_def
  RECONNECTION_TIMER_def SECURE_WEBSOCKET_def

lemma get_prop_absent: "\<not> hasOwnProperty obj k \<Longrightarrow> get_prop obj k = JUndefined"
  by (simp add: hasOwnProperty_def get_prop_def)

text \<open>Nothing after the constructor assigns to \<^verbatim>\<open>this.options\<close>.\<close>

lemma step_options: "step B ev w = Inr w' \<Longrightarrow> options (mgr w') = options (mgr w)"
  by (cases ev)
     (auto simp: connect_def wb_connect_def log_effect_def emit_def disconnect_def sendWB_def
        on_connectFailed_def schedule_reconnect_def on_connect_def on_error_def on_close_def
        on_message_def fire_def Let_def
        split: option.splits if_splits sum.splits message.splits timer.splits)

lemma run_options: "run B evs w = Inr w' \<Longrightarrow> options (mgr w') = options (mgr w)"
  by (induction evs arbitrary: w) (auto split: sum.splits dest: step_options)

section \<open>Properties of runs\<close>

lemma consistent_new_world: "consistent (options m) (new_world m)"
  by (simp add: consistent_def new_world_def attempts_def)

lemma attempts_snoc [simp]:
  "attempts (es @ [e]) = (if is_attempt e then attempts es @ [e] else attempts es)"
  by (simp add: attempts_def)

lemma in_set_updD: "x \<in> set (xs[i := y]) \<Longrightarrow> x = y \<or> x \<in> set xs"
  using set_update_subset_insert [of xs i y] by auto

text \<open>What each call and handler does to the world, field by field.\<close>

lemma connect_eq:
  "connect w =
     Inr (w\<lparr>clients := clients w @ [\<lparr>connection = None, client_prefix = scheme (options (mgr w))\<rparr>],
            mgr := (mgr w)\<lparr>wb := Some (length (clients w))\<rparr>,
            trace := trace w @ [attempt_of (options (mgr w)) (length (clients w))]\<rparr>)"
  by (simp add: connect_def wb_connect_def log_effect_def Let_def attempt_of_def)

lemma schedule_reconnect_eq:
  "schedule_reconnect p w =
     w\<lparr>timers := timers w @
          (if truthy (get_prop (options (mgr w)) ''autoReconnect'')
           then [Reconnect p (get_prop (options (mgr w)) ''reconnectionTimer'')] else [])\<rparr>"
  by (simp add: schedule_reconnect_def)

lemma on_connectFailed_eq:
  "on_connectFailed k err w =
     w\<lparr>mgr := (mgr w)\<lparr>websocketBridgeConnected := False\<rparr>,
       trace := trace w @ [Emit OnManager ''connectionFailed'' (JStr err)],
       timers := timers w @
          (if truthy (get_prop (options (mgr w)) ''autoReconnect'')
           then [Reconnect (client_prefix (clients w ! k))
                   (get_prop (options (mgr w)) ''reconnectionTimer'')] else [])\<rparr>"
  by (simp add: on_connectFailed_def schedule_reconnect_eq emit_def log_effect_def Let_def)

lemma on_close_eq:
  "on_close c w =
     w\<lparr>conns := (conns w)[c := (conns w ! c)\<lparr>connected := False\<rparr>],
       mgr := (mgr w)\<lparr>websocketBridgeConnected := False\<rparr>,
       trace := trace w @ [Emit OnManager ''connectionClose''
                             (JStr ''websocket bridge connection closed'')],
       timers := timers w @
          (if truthy (get_prop (options (mgr w)) ''autoReconnect'')
           then [Reconnect (conn_prefix (conns w ! c))
                   (get_prop (options (mgr w)) ''reconnectionTimer'')] else [])\<rparr>"
  by (simp add: on_close_def schedule_reconnect_eq emit_def log_effect_def Let_def)

lemma on_connect_eq:
  "wb (mgr w) = Some k' \<Longrightarrow>
   on_connect B k w =
     Inr (w\<lparr>conns := conns w @ [\<lparr>connected = True, conn_prefix = client_prefix (clients w ! k)\<rparr>],
            trace := trace w @
              [ConnSendUTF (length (conns w)) (JSON_stringify B (auth_request (options (mgr w)))),
               Emit OnManager ''connection'' (JStr ''websocket bridge connected'')],
            clients := (clients w)[k' := (clients w ! k')\<lparr>connection := Some (length (conns w))\<rparr>],
            mgr := (mgr w)\<lparr>websocketBridgeConnected := True\<rparr>\<rparr>)"
  by (simp add: on_connect_def emit_def log_effect_def Let_def)

lemma on_connect_undefined: "wb (mgr w) = None \<Longrightarrow> on_connect B k w = Inl (JsTypeError ''connection'')"
  by (simp add: on_connect_def log_effect_def Let_def)

lemma fire_eq:
  "wb (mgr w) = Some k \<Longrightarrow> timers w ! i = Reconnect p d \<Longrightarrow>
   fire i w =
     Inr (w\<lparr>timers := take i (timers w) @ drop (Suc i) (timers w),
            trace := trace w @
              [ClientConnect k (bridge_url p (options (mgr w)))
                 (get_prop (options (mgr w)) ''websocketBridgeSubProtocol'')
                 (get_prop (options (mgr w)) ''websocketBridgeOrigin'')]\<rparr>)"
  by (simp add: fire_def wb_connect_def log_effect_def)

lemma fire_undefined: "wb (mgr w) = None \<Longrightarrow> fire i w = Inl (JsTypeError ''connect'')"
  by (simp add: fire_def wb_connect_def split: timer.splits)

lemma same_but_trace:
  assumes "consistent opts w" "\<not> is_attempt e"
  shows "consistent opts (w\<lparr>trace := trace w @ [e]\<rparr>)"
  using assms by (simp add: consistent_def)

lemma consistent_connect:
  assumes "consistent opts w" "connect w = Inr w'"
  shows "consistent opts w'"
proof -
  have w': "w' = w\<lparr>clients := clients w @ [\<lparr>connection = None, client_prefix = scheme opts\<rparr>],
            mgr := (mgr w)\<lparr>wb := Some (length (clients w))\<rparr>,
            trace := trace w @ [attempt_of opts (length (clients w))]\<rparr>"
    using assms by (simp add: connect_eq consistent_def)
  show ?thesis
    using assms(1) unfolding w' consistent_def
    by (auto simp: attempt_of_def)
qed

lemma consistent_connectFailed:
  assumes "consistent opts w" "k < length (clients w)"
  shows "consistent opts (on_connectFailed k err w)"
proof -
  have "client_prefix (clients w ! k) = scheme opts"
    using assms by (simp add: consistent_def)
  then show ?thesis
    using assms unfolding on_connectFailed_eq consistent_def
    by (auto simp: retry_of_def)
qed

lemma consistent_on_close:
  assumes "consistent opts w" "c < length (conns w)"
  shows "consistent opts (on_close c w)"
proof -
  have p: "conn_prefix (conns w ! c) = scheme opts"
    using assms by (simp add: consistent_def)
  have "\<forall>cn \<in> set ((conns w)[c := (conns w ! c)\<lparr>connected := False\<rparr>]). conn_prefix cn = scheme opts"
    using assms p by (auto simp: consistent_def dest!: in_set_updD)
  then show ?thesis
    using assms p unfolding on_close_eq consistent_def
    by (auto simp: retry_of_def)
qed

lemma consistent_on_connect:
  assumes "consistent opts w" "k < length (clients w)" "on_connect B k w = Inr w'"
  shows "consistent opts w'"
proof -
  from assms(1,2) obtain k' where k': "wb (mgr w) = Some k'" "k' < length (clients w)"
    by (auto simp: consistent_def)
  have p: "client_prefix (clients w ! k) = scheme opts"
    using assms by (simp add: consistent_def)
  have p': "client_prefix (clients w ! k') = scheme opts"
    using assms(1) k' by (simp add: consistent_def)
  have cl: "\<forall>cl \<in> set ((clients w)[k' := (clients w ! k')\<lparr>connection := Some (length (conns w))\<rparr>]).
              client_prefix cl = scheme opts"
    using assms(1) p' by (auto simp: consistent_def dest!: in_set_updD)
  have w': "w' = w\<lparr>conns := conns w @ [\<lparr>connected = True, conn_prefix = client_prefix (clients w ! k)\<rparr>],
            trace := trace w @
              [ConnSendUTF (length (conns w)) (JSON_stringify B (auth_request (options (mgr w)))),
               Emit OnManager ''connection'' (JStr ''websocket bridge connected'')],
            clients := (clients w)[k' := (clients w ! k')\<lparr>connection := Some (length (conns w))\<rparr>],
            mgr := (mgr w)\<lparr>websocketBridgeConnected := True\<rparr>\<rparr>"
    using assms(3) k'(1) by (simp add: on_connect_eq)
  have ne: "clients w \<noteq> []"
    using assms(2) by auto
  show ?thesis
    using assms(1) k' p cl ne unfolding w' consistent_def
    by (auto simp: attempts_def)
qed

lemma consistent_on_message:
  assumes "consistent opts w" "on_message B message w = Inr w'"
  shows "consistent opts w'"
  using assms
  by (auto simp: on_message_def emit_def log_effect_def
        split: message.splits option.splits sum.splits if_splits
        intro: same_but_trace)

lemma consistent_disconnect:
  assumes "consistent opts w" "disconnect w = Inr w'"
  shows "consistent opts w'"
  using assms
  by (auto simp: disconnect_def log_effect_def split: option.splits if_splits
        intro: same_but_trace)

lemma consistent_sendWB:
  assumes "consistent opts w" "sendWB B sendMsg w = Inr w'"
  shows "consistent opts w'"
  using assms
  by (auto simp: sendWB_def emit_def log_effect_def split: option.splits if_splits
        intro: same_but_trace)

lemma consistent_fire:
  assumes "consistent opts w" "i < length (timers w)" "fire i w = Inr w'"
  shows "consistent opts w'"
proof -
  have t: "timers w ! i = Reconnect (scheme opts) (get_prop opts ''reconnectionTimer'')"
    using assms(1,2) by (simp add: consistent_def retry_of_def)
  have on: "truthy (get_prop opts ''autoReconnect'')"
    using assms(1,2) by (auto simp: consistent_def)
  from assms(3) obtain k where k: "wb (mgr w) = Some k"
    by (cases "wb (mgr w)") (simp_all add: fire_undefined)
  have rest: "\<forall>t \<in> set (take i (timers w) @ drop (Suc i) (timers w)). t = retry_of opts"
    using assms(1) by (auto simp: consistent_def dest: in_set_takeD in_set_dropD)
  have o: "options (mgr w) = opts"
    using assms(1) by (simp add: consistent_def)
  have w': "w' = w\<lparr>timers := take i (timers w) @ drop (Suc i) (timers w),
                   trace := trace w @ [attempt_of opts k]\<rparr>"
    using assms(3) fire_eq [OF k t] by (simp add: o attempt_of_def)
  show ?thesis
    using assms(1) rest on unfolding w' consistent_def
    by (auto simp: attempt_of_def)
qed

lemma consistent_step:
  assumes "consistent opts w" "step B ev w = Inr w'"
  shows "consistent opts w'"
proof (cases ev)
  case CallConnect
  then show ?thesis using assms by (auto intro: consistent_connect)
next
  case CallDisconnect
  then show ?thesis using assms by (auto intro: consistent_disconnect)
next
  case (CallSendWB x3)
  then show ?thesis using assms by (auto intro: consistent_sendWB)
next
  case (ConnectFailed k err)
  then show ?thesis using assms by (auto split: if_splits intro: consistent_connectFailed)
next
  case (Connect k)
  then show ?thesis using assms by (auto split: if_splits intro: consistent_on_connect)
next
  case (ConnError c err)
  then show ?thesis
    using assms by (auto split: if_splits simp: on_error_def log_effect_def intro: same_but_trace)
next
  case (ConnClose c)
  then show ?thesis using assms by (auto split: if_splits intro: consistent_on_close)
next
  case (ConnMessage c message)
  then show ?thesis using assms by (auto split: if_splits intro: consistent_on_message)
next
  case (TimerFire i)
  then show ?thesis using assms by (auto split: if_splits intro: consistent_fire)
qed

lemma consistent_run:
  assumes "consistent opts w" "run B evs w = Inr w'"
  shows "consistent opts w'"
  using assms
  by (induction evs arbitrary: w) (auto split: sum.splits intro: consistent_step)

lemma consistent_reached:
  "run B evs (new_world m) = Inr w \<Longrightarrow> consistent (options m) w"
  using consistent_new_world consistent_run by blast

lemma run_snoc:
  "run B (evs @ [ev]) w = (case run B evs w of Inl e \<Rightarrow> Inl e | Inr w' \<Rightarrow> step B ev w')"
  by (induction evs arbitrary: w) (auto split: sum.splits)

lemma no_attempt_step:
  assumes "consistent opts w" "\<not> truthy (get_prop opts ''autoReconnect'')"
    and "ev \<noteq> CallConnect" "step B ev w = Inr w'"
  shows "attempts (trace w') = attempts (trace w)"
proof -
  have none: "timers w = []"
    using assms(1,2) by (simp add: consistent_def)
  show ?thesis
  proof (cases ev)
    case CallConnect
    then show ?thesis using assms(3) by simp
  next
    case CallDisconnect
    then show ?thesis
      using assms(4) by (auto simp: disconnect_def log_effect_def split: option.splits if_splits)
  next
    case (CallSendWB sendMsg)
    then show ?thesis
      using assms(4)
      by (auto simp: sendWB_def emit_def log_effect_def split: option.splits if_splits)
  next
    case (ConnectFailed k err)
    then show ?thesis
      using assms(4) by (auto simp: on_connectFailed_eq split: if_splits)
  next
    case (Connect k)
    then show ?thesis
      using assms(4)
      by (cases "wb (mgr w)")
         (auto simp: on_connect_eq on_connect_undefined attempts_def split: if_splits)
  next
    case (ConnError c err)
    then show ?thesis
      using assms(4) by (auto simp: on_error_def log_effect_def split: if_splits)
  next
    case (ConnClose c)
    then show ?thesis
      using assms(4) by (auto simp: on_close_eq split: if_splits)
  next
    case (ConnMessage c message)
    then show ?thesis
      using assms(4)
      by (auto simp: on_message_def emit_def log_effect_def
            split: message.splits option.splits sum.splits if_splits)
  next
    case (TimerFire i)
    then show ?thesis using assms(4) none by simp
  qed
qed

lemma no_attempt_run:
  assumes "consistent opts w" "\<not> truthy (get_prop opts ''autoReconnect'')"
    and "CallConnect \<notin> set evs" "run B evs w = Inr w'"
  shows "attempts (trace w') = attempts (trace w)"
  using assms
proof (induction evs arbitrary: w)
  case Nil
  then show ?case by simp
next
  case (Cons ev evs)
  from Cons.prems(4) obtain w1 where s: "step B ev w = Inr w1" and r: "run B evs w1 = Inr w'"
    by (auto split: sum.splits)
  have "consistent opts w1"
    using Cons.prems(1) s by (rule consistent_step)
  then have "attempts (trace w') = attempts (trace w1)"
    using Cons.prems(2,3) r by (intro Cons.IH) auto
  moreover have "attempts (trace w1) = attempts (trace w)"
    using Cons.prems(1,2,3) s by (intro no_attempt_step [of opts w ev B w1]) auto
  ultimately show ?case by simp
qed

text \<open>The filter of the message handler.\<close>

lemma strict_equals_iff: "strict_equals a t \<longleftrightarrow> a = t \<and> \<not> is_reference t"
  by (cases a; cases t) auto

lemma array_indexOf_range: "- 1 \<le> array_indexOf xs t"
  by (induction xs) (auto simp: Let_def)

lemma array_indexOf_found:
  "array_indexOf xs t \<noteq> - 1 \<longleftrightarrow> t \<in> set xs \<and> \<not> is_reference t"
proof (induction xs)
  case Nil
  show ?case by simp
next
  case (Cons x xs)
  then show ?case
    using array_indexOf_range [of xs t]
    by (auto simp: strict_equals_iff Let_def)
qed

text \<open>
  \<^verbatim>\<open>sendWB\<close> with a client but no open connection, and the error handler in any
  world: neither touches the manager, the stores or the timers.
\<close>

lemma sendWB_not_open:
  assumes "wb (mgr w) = Some k"
    and "connection (clients w ! k) = None \<or>
         (\<exists>c. connection (clients w ! k) = Some c \<and> \<not> connected (conns w ! c))"
  shows "sendWB B sendMsg w =
           Inr (w\<lparr>trace := trace w @
                  [Emit OnManager ''sendError'' (JStr ''websocket bridge not connected'')]\<rparr>)"
  using assms by (auto simp: sendWB_def emit_def log_effect_def)

lemma on_error_eq:
  "step B (ConnError c err) w =
     Inr (if c < length (conns w)
          then w\<lparr>trace := trace w @ [Emit (OnConnection c) ''connectionError'' (JStr err)]\<rparr>
          else w)"
  by (simp add: on_error_def log_effect_def)

section \<open>The scenario, evaluated\<close>

lemma new_lights: "new_IoTransitWB (JStr ''lights'') = Inr lights_manager"
  unfolding lights_manager_def by code_simp

lemma new_quiet:
  "new_IoTransitWB (JObj [(''appletId'', JStr ''lights''), (''autoReconnect'', JBool False)]) =
     Inr quiet_manager"
  unfolding quiet_manager_def by code_simp

lemma run_lights_connected:
  "run scenario_JSON [CallConnect, Connect 0] (new_world lights_manager) = Inr lights_connected"
  unfolding lights_connected_def lights_manager_def by code_simp

lemma run_quiet_connected:
  "run scenario_JSON [CallConnect, Connect 0] (new_world quiet_manager) = Inr quiet_connected"
  unfolding quiet_connected_def quiet_manager_def by code_simp

lemma parse_scenario:
  "JSON_parse scenario_JSON frame_lights =
     Some (JObj [(''t'', JStr ''lights''), (''p'', JObj [(''on'', JBool True)])])"
  "JSON_parse scenario_JSON frame_thermostat =
     Some (JObj [(''t'', JStr ''thermostat''), (''p'', JObj [])])"
  "JSON_parse scenario_JSON frame_all =
     Some (JObj [(''t'', JStr ''all''), (''p'', JObj [(''shutdown'', JBool True)])])"
  by (simp_all add: scenario_JSON_def frame_lights_def frame_thermostat_def frame_all_def)

lemma scenario_scheme:
  "scheme (options lights_manager) = ''wss://''"
  "scheme (options quiet_manager) = ''wss://''"
  by (simp_all add: lights_manager_def quiet_manager_def scheme_def get_prop_def)

lemma scenario_url:
  "bridge_url ''wss://'' (options lights_manager) = ''wss://127.0.0.1:444/''"
  "bridge_url ''wss://'' (options quiet_manager) = ''wss://127.0.0.1:444/''"
  unfolding lights_manager_def quiet_manager_def by code_simp+

section \<open>Claims about the constructor\<close>

text \<open>
  C5. For a structured input that has the \<^verbatim>\<open>appletId\<close> property, construction
  succeeds and the accepted tags are the one-element list of the \<^verbatim>\<open>appletId\<close>
  value when \<^verbatim>\<open>accepts\<close> is absent, the one-element list of the given string when
  \<^verbatim>\<open>accepts\<close> is a string, and the given list when \<^verbatim>\<open>accepts\<close> is a list.
\<close>

theorem accept_tags_from_accepts:
  assumes "hasOwnProperty kvs ''appletId''"
  shows "\<exists>m. new_IoTransitWB (JObj kvs) = Inr m \<and>
           (\<not> hasOwnProperty kvs ''accepts'' \<longrightarrow>
              get_prop (options m) ''acceptTags'' = JArr [get_prop kvs ''appletId'']) \<and>
           (\<forall>s. get_prop kvs ''accepts'' = JStr s \<longrightarrow>
              get_prop (options m) ''acceptTags'' = JArr [JStr s]) \<and>
           (\<forall>xs. get_prop kvs ''accepts'' = JArr xs \<longrightarrow>
              get_prop (options m) ''acceptTags'' = JArr xs)"
proof -
  have absent: "get_prop kvs ''accepts'' = JUndefined" if "\<not> hasOwnProperty kvs ''accepts''"
    using that by (simp add: hasOwnProperty_def get_prop_def)
  have "get_prop (set_acceptTags kvs) ''acceptTags'' = JArr [get_prop kvs ''appletId'']"
    if "\<not> hasOwnProperty kvs ''accepts''"
    using that by (simp add: set_acceptTags_def get_set_prop)
  moreover have "get_prop (set_acceptTags kvs) ''acceptTags'' = JArr [JStr s]"
    if "get_prop kvs ''accepts'' = JStr s" for s
    using that absent by (auto simp: set_acceptTags_def get_set_prop)
  moreover have "get_prop (set_acceptTags kvs) ''acceptTags'' = JArr xs"
    if "get_prop kvs ''accepts'' = JArr xs" for xs
    using that absent by (auto simp: set_acceptTags_def get_set_prop)
  ultimately show ?thesis
    using assms by (simp add: new_object get_set_defaults_acceptTags)
qed

theorem accept_tags_from_accepts_witness:
  "hasOwnProperty [(''appletId'', JStr ''lights'')] ''appletId'' \<and>
   \<not> hasOwnProperty [(''appletId'', JStr ''lights'')] ''accepts'' \<and>
   (\<exists>m. new_IoTransitWB (JObj [(''appletId'', JStr ''lights'')]) = Inr m \<and>
        get_prop (options m) ''acceptTags'' = JArr [JStr ''lights'']) \<and>
   hasOwnProperty [(''appletId'', JStr ''lights''), (''accepts'', JStr ''hall'')] ''appletId'' \<and>
   get_prop [(''appletId'', JStr ''lights''), (''accepts'', JStr ''hall'')] ''accepts'' =
     JStr ''hall'' \<and>
   (\<exists>m. new_IoTransitWB (JObj [(''appletId'', JStr ''lights''), (''accepts'', JStr ''hall'')]) =
          Inr m \<and>
        get_prop (options m) ''acceptTags'' = JArr [JStr ''hall'']) \<and>
   hasOwnProperty [(''appletId'', JStr ''lights''), (''accepts'', JArr [JStr ''a'', JStr ''b''])]
     ''appletId'' \<and>
   get_prop [(''appletId'', JStr ''lights''), (''accepts'', JArr [JStr ''a'', JStr ''b''])]
     ''accepts'' = JArr [JStr ''a'', JStr ''b''] \<and>
   (\<exists>m. new_IoTransitWB
          (JObj [(''appletId'', JStr ''lights''), (''accepts'', JArr [JStr ''a'', JStr ''b''])]) =
          Inr m \<and>
        get_prop (options m) ''acceptTags'' = JArr [JStr ''a'', JStr ''b''])"
proof -
  let ?absent = "[(''appletId'', JStr ''lights'')]"
  let ?str = "[(''appletId'', JStr ''lights''), (''accepts'', JStr ''hall'')]"
  let ?list = "[(''appletId'', JStr ''lights''), (''accepts'', JArr [JStr ''a'', JStr ''b''])]"
  have h: "hasOwnProperty ?absent ''appletId''" "hasOwnProperty ?str ''appletId''"
    "hasOwnProperty ?list ''appletId''" "\<not> hasOwnProperty ?absent ''accepts''"
    by (simp_all add: hasOwnProperty_def)
  have g: "get_prop ?absent ''appletId'' = JStr ''lights''"
    "get_prop ?str ''accepts'' = JStr ''hall''"
    "get_prop ?list ''accepts'' = JArr [JStr ''a'', JStr ''b'']"
    by (simp_all add: get_prop_def)
  have a: "\<exists>m. new_IoTransitWB (JObj ?absent) = Inr m \<and>
             get_prop (options m) ''acceptTags'' = JArr [JStr ''lights'']"
    using accept_tags_from_accepts [OF h(1)] h(4) g(1) by auto
  have b: "\<exists>m. new_IoTransitWB (JObj ?str) = Inr m \<and>
             get_prop (options m) ''acceptTags'' = JArr [JStr ''hall'']"
    using accept_tags_from_accepts [OF h(2)] g(2) by auto
  have c: "\<exists>m. new_IoTransitWB (JObj ?list) = Inr m \<and>
             get_prop (options m) ''acceptTags'' = JArr [JStr ''a'', JStr ''b'']"
    using accept_tags_from_accepts [OF h(3)] g(3) by auto
  show ?thesis
    by (intro conjI h g(2,3) a b c)
qed

text \<open>
  C6. Construction with no argument, with \<^verbatim>\<open>null\<close>, or with an object that has no
  \<^verbatim>\<open>appletId\<close> property throws the configuration error at once: no manager comes
  into being, so whatever calls and events were to follow, the session ends in that error
  and no connection is attempted.
\<close>

theorem construction_without_identity_fails:
  "new_IoTransitWB JUndefined = Inl (JsError ''mandatory appletId not passed to constructor'') \<and>
   new_IoTransitWB JNull = Inl (JsError ''mandatory appletId not passed to constructor'') \<and>
   session B JUndefined evs = Inl (JsError ''mandatory appletId not passed to constructor'') \<and>
   session B JNull evs = Inl (JsError ''mandatory appletId not passed to constructor'') \<and>
   (\<not> hasOwnProperty kvs ''appletId'' \<longrightarrow>
      new_IoTransitWB (JObj kvs) = Inl (JsError ''mandatory appletId not provided in config'') \<and>
      session B (JObj kvs) evs = Inl (JsError ''mandatory appletId not provided in config''))"
  by (simp add: new_IoTransitWB_def session_def)

theorem construction_without_identity_fails_witness:
  "\<not> hasOwnProperty [(''accepts'', JStr ''lights'')] ''appletId'' \<and>
   new_IoTransitWB (JObj [(''accepts'', JStr ''lights'')]) =
     Inl (JsError ''mandatory appletId not provided in config'') \<and>
   session scenario_JSON (JObj [(''accepts'', JStr ''lights'')]) [CallConnect] =
     Inl (JsError ''mandatory appletId not provided in config'')"
proof -
  have h: "\<not> hasOwnProperty [(''accepts'', JStr ''lights'')] ''appletId''"
    by (simp add: hasOwnProperty_def)
  with construction_without_identity_fails
         [of scenario_JSON "[CallConnect]" "[(''accepts'', JStr ''lights'')]"]
  show ?thesis by blast
qed

text \<open>
  A supplied empty password and a supplied port 0 do not survive construction: both are
  falsy, and \<^verbatim>\<open>||\<close> puts the default in their place.
\<close>

theorem falsy_option_replaced_counterexample:
  "new_IoTransitWB
     (JObj [(''appletId'', JStr ''lights''), (''authPass'', JStr ''''),
            (''websocketBridgePort'', JNum 0)]) =
   Inr \<lparr>options =
          [(''appletId'', JStr ''lights''), (''authPass'', JStr ''external''),
           (''websocketBridgePort'', JNum 444), (''acceptTags'', JArr [JStr ''lights'']),
           (''authUser'', JStr ''api1''), (''websocketBridgeUri'', JStr ''127.0.0.1''),
           (''websocketBridgeSubProtocol'', JStr ''wb.iotransit.net''),
           (''websocketBridgeOrigin'', JStr ''bridge''), (''autoReconnect'', JBool True),
           (''reconnectionTimer'', JNum 5000), (''secureWebSocket'', JBool True)],
        websocketBridgeConnected = False, authDevice = [], authDomain = [],
        authenticated = False, wb = None\<rparr>"
  by code_simp

text \<open>
  C8, amended. For a structured input that has \<^verbatim>\<open>appletId\<close>, construction
  succeeds and each option is settled on its own, whatever the other fields are:
  \<^verbatim>\<open>authUser\<close>, \<^verbatim>\<open>authPass\<close>, the bridge host, port, subprotocol and origin and
  the reconnection delay keep a supplied truthy value and take their default when the
  field is omitted or falsy; \<^verbatim>\<open>autoReconnect\<close> and \<^verbatim>\<open>secureWebSocket\<close> keep
  any supplied value and default to \<^verbatim>\<open>true\<close> when omitted.
\<close>

theorem defaults_per_field:
  assumes "hasOwnProperty kvs ''appletId''"
  shows "\<exists>m. new_IoTransitWB (JObj kvs) = Inr m \<and>
     get_prop (options m) ''authUser'' =
       (if truthy (get_prop kvs ''authUser'') then get_prop kvs ''authUser'' else JStr ''api1'') \<and>
     get_prop (options m) ''authPass'' =
       (if truthy (get_prop kvs ''authPass'') then get_prop kvs ''authPass''
        else JStr ''external'') \<and>
     get_prop (options m) ''websocketBridgeUri'' =
       (if truthy (get_prop kvs ''websocketBridgeUri'') then get_prop kvs ''websocketBridgeUri''
        else JStr ''127.0.0.1'') \<and>
     get_prop (options m) ''websocketBridgePort'' =
       (if truthy (get_prop kvs ''websocketBridgePort'') then get_prop kvs ''websocketBridgePort''
        else JNum 444) \<and>
     get_prop (options m) ''websocketBridgeSubProtocol'' =
       (if truthy (get_prop kvs ''websocketBridgeSubProtocol'')
        then get_prop kvs ''websocketBridgeSubProtocol'' else JStr ''wb.iotransit.net'') \<and>
     get_prop (options m) ''websocketBridgeOrigin'' =
       (if truthy (get_prop kvs ''websocketBridgeOrigin'')
        then get_prop kvs ''websocketBridgeOrigin'' else JStr ''bridge'') \<and>
     get_prop (options m) ''reconnectionTimer'' =
       (if truthy (get_prop kvs ''reconnectionTimer'') then get_prop kvs ''reconnectionTimer''
        else JNum 5000) \<and>
     get_prop (options m) ''autoReconnect'' =
       (if hasOwnProperty kvs ''autoReconnect'' then get_prop kvs ''autoReconnect''
        else JBool True) \<and>
     get_prop (options m) ''secureWebSocket'' =
       (if hasOwnProperty kvs ''secureWebSocket'' then get_prop kvs ''secureWebSocket''
        else JBool True)"
  using assms
  by (simp add: new_object get_set_defaults_or get_set_defaults_own js_or_def
        get_set_acceptTags_other has_set_acceptTags_other DEFAULTS)

theorem defaults_per_field_witness:
  "hasOwnProperty [(''appletId'', JStr ''lights''), (''authUser'', JStr ''hub''),
                   (''authPass'', JStr ''''), (''autoReconnect'', JBool False)] ''appletId'' \<and>
   (\<exists>m. new_IoTransitWB
          (JObj [(''appletId'', JStr ''lights''), (''authUser'', JStr ''hub''),
                 (''authPass'', JStr ''''), (''autoReconnect'', JBool False)]) = Inr m \<and>
        get_prop (options m) ''authUser'' = JStr ''hub'' \<and>
        get_prop (options m) ''authPass'' = JStr ''external'' \<and>
        get_prop (options m) ''websocketBridgePort'' = JNum 444 \<and>
        get_prop (options m) ''autoReconnect'' = JBool False \<and>
        get_prop (options m) ''secureWebSocket'' = JBool True)"
proof -
  have h: "hasOwnProperty [(''appletId'', JStr ''lights''), (''authUser'', JStr ''hub''),
                   (''authPass'', JStr ''''), (''autoReconnect'', JBool False)] ''appletId''"
    by (simp add: hasOwnProperty_def)
  from defaults_per_field [OF h] obtain m where
    "new_IoTransitWB
          (JObj [(''appletId'', JStr ''lights''), (''authUser'', JStr ''hub''),
                 (''authPass'', JStr ''''), (''autoReconnect'', JBool False)]) = Inr m \<and>
        get_prop (options m) ''authUser'' = JStr ''hub'' \<and>
        get_prop (options m) ''authPass'' = JStr ''external'' \<and>
        get_prop (options m) ''websocketBridgePort'' = JNum 444 \<and>
        get_prop (options m) ''autoReconnect'' = JBool False \<and>
        get_prop (options m) ''secureWebSocket'' = JBool True"
    by (auto simp: get_prop_def hasOwnProperty_def)
  with h show ?thesis by blast
qed

text \<open>An empty list given as \<^verbatim>\<open>accepts\<close> is taken as it is: no tag is accepted.\<close>

theorem empty_accepts_counterexample:
  "new_IoTransitWB (JObj [(''appletId'', JStr ''lights''), (''accepts'', JArr [])]) =
   Inr \<lparr>options =
          [(''appletId'', JStr ''lights''), (''accepts'', JArr []), (''acceptTags'', JArr []),
           (''authUser'', JStr ''api1''), (''authPass'', JStr ''external''),
           (''websocketBridgeUri'', JStr ''127.0.0.1''), (''websocketBridgePort'', JNum 444),
           (''websocketBridgeSubProtocol'', JStr ''wb.iotransit.net''),
           (''websocketBridgeOrigin'', JStr ''bridge''), (''autoReconnect'', JBool True),
           (''reconnectionTimer'', JNum 5000), (''secureWebSocket'', JBool True)],
        websocketBridgeConnected = False, authDevice = [], authDomain = [],
        authenticated = False, wb = None\<rparr>"
  by code_simp

text \<open>
  C9, amended. Whenever construction succeeds, from a bare string or from an object, and
  \<^verbatim>\<open>accepts\<close> is absent, a string or a non-empty list, the accepted tags are a
  non-empty list; with \<^verbatim>\<open>accepts\<close> absent it is the one-element list of the
  \<^verbatim>\<open>appletId\<close> value, which for a bare string is that string. The constructor never
  assigns \<^verbatim>\<open>accepts\<close> or \<^verbatim>\<open>appletId\<close>: on the manager they are what the
  caller's object held.
\<close>

theorem accept_tags_nonempty:
  assumes "new_IoTransitWB arg = Inr m"
    and "\<not> hasOwnProperty (options m) ''accepts'' \<or>
         is_string (get_prop (options m) ''accepts'') \<or>
         (\<exists>x xs. get_prop (options m) ''accepts'' = JArr (x # xs))"
  shows "\<exists>tags. get_prop (options m) ''acceptTags'' = JArr tags \<and> tags \<noteq> [] \<and>
           (\<not> hasOwnProperty (options m) ''accepts'' \<longrightarrow>
              tags = [get_prop (options m) ''appletId'']) \<and>
           (\<forall>s. arg = JStr s \<longrightarrow> tags = [JStr s]) \<and>
           (\<forall>kvs. arg = JObj kvs \<longrightarrow>
              hasOwnProperty (options m) ''accepts'' = hasOwnProperty kvs ''accepts'' \<and>
              get_prop (options m) ''accepts'' = get_prop kvs ''accepts'' \<and>
              get_prop (options m) ''appletId'' = get_prop kvs ''appletId'')"
proof -
  from assms(1) obtain opts where t: "take_options arg = Inr opts"
    and o: "options m = set_defaults (set_acceptTags opts)"
    by (rule constructed)
  have keep: "hasOwnProperty (options m) ''accepts'' = hasOwnProperty opts ''accepts''"
    "get_prop (options m) ''accepts'' = get_prop opts ''accepts''"
    "get_prop (options m) ''appletId'' = get_prop opts ''appletId''"
    by (simp_all add: o set_defaults_keeps get_set_acceptTags_other has_set_acceptTags_other)
  have tags: "get_prop (options m) ''acceptTags'' = get_prop (set_acceptTags opts) ''acceptTags''"
    by (simp add: o get_set_defaults_acceptTags)
  have main: "\<exists>tags. get_prop (set_acceptTags opts) ''acceptTags'' = JArr tags \<and> tags \<noteq> [] \<and>
           (\<not> hasOwnProperty opts ''accepts'' \<longrightarrow> tags = [get_prop opts ''appletId''])"
    using assms(2) unfolding keep
    by (cases "get_prop opts ''accepts''")
       (auto simp: set_acceptTags_def get_set_prop get_prop_absent)
  have str: "\<not> hasOwnProperty opts ''accepts'' \<and> get_prop opts ''appletId'' = JStr s"
    if "arg = JStr s" for s
    using t that by (auto simp: hasOwnProperty_def get_prop_def set_prop_def)
  have obj: "opts = kvs" if "arg = JObj kvs" for kvs
    using t that by (auto split: if_splits)
  show ?thesis
    using main str obj unfolding tags keep by auto
qed

theorem accept_tags_nonempty_witness:
  "new_IoTransitWB (JStr ''lights'') = Inr lights_manager \<and>
   \<not> hasOwnProperty (options lights_manager) ''accepts'' \<and>
   get_prop (options lights_manager) ''acceptTags'' = JArr [JStr ''lights''] \<and>
   new_IoTransitWB (JObj [(''appletId'', JStr ''lights''), (''autoReconnect'', JBool False)]) =
     Inr quiet_manager \<and>
   \<not> hasOwnProperty (options quiet_manager) ''accepts'' \<and>
   get_prop (options quiet_manager) ''acceptTags'' = JArr [JStr ''lights''] \<and>
   (\<exists>m tags. new_IoTransitWB
          (JObj [(''appletId'', JStr ''lights''), (''accepts'', JArr [JStr ''a''])]) = Inr m \<and>
        get_prop (options m) ''accepts'' = JArr [JStr ''a''] \<and>
        get_prop (options m) ''acceptTags'' = JArr tags \<and> tags \<noteq> [])"
proof -
  have a: "\<not> hasOwnProperty (options lights_manager) ''accepts''"
    "\<not> hasOwnProperty (options quiet_manager) ''accepts''"
    by (simp_all add: lights_manager_def quiet_manager_def hasOwnProperty_def)
  have "get_prop (options lights_manager) ''acceptTags'' = JArr [JStr ''lights'']"
    using accept_tags_nonempty [OF new_lights disjI1, OF a(1)] by auto
  moreover have "get_prop (options quiet_manager) ''appletId'' = JStr ''lights''"
    by (simp add: quiet_manager_def get_prop_def)
  then have "get_prop (options quiet_manager) ''acceptTags'' = JArr [JStr ''lights'']"
    using accept_tags_nonempty [OF new_quiet disjI1, OF a(2)] a(2) by auto
  moreover have "\<exists>m tags. new_IoTransitWB
          (JObj [(''appletId'', JStr ''lights''), (''accepts'', JArr [JStr ''a''])]) = Inr m \<and>
        get_prop (options m) ''accepts'' = JArr [JStr ''a''] \<and>
        get_prop (options m) ''acceptTags'' = JArr tags \<and> tags \<noteq> []"
  proof -
    let ?kvs = "[(''appletId'', JStr ''lights''), (''accepts'', JArr [JStr ''a''])]"
    let ?m = "\<lparr>options = set_defaults (set_acceptTags ?kvs), websocketBridgeConnected = False,
               authDevice = [], authDomain = [], authenticated = False, wb = None\<rparr>"
    have "hasOwnProperty ?kvs ''appletId''"
      by (simp add: hasOwnProperty_def)
    then have n: "new_IoTransitWB (JObj ?kvs) = Inr ?m"
      by (rule new_object)
    have "get_prop ?kvs ''accepts'' = JArr [JStr ''a'']"
      by (simp add: get_prop_def)
    then have g: "get_prop (options ?m) ''accepts'' = JArr [JStr ''a'']"
      by (simp add: set_defaults_keeps get_set_acceptTags_other)
    then have "\<exists>x xs. get_prop (options ?m) ''accepts'' = JArr (x # xs)"
      by blast
    from accept_tags_nonempty [OF n disjI2, OF disjI2, OF this] n g show ?thesis
      by blast
  qed
  ultimately show ?thesis
    using new_lights new_quiet a by simp
qed

text \<open>
  The constructor takes no branch for a numeric \<^verbatim>\<open>accepts\<close>, so an
  \<^verbatim>\<open>acceptTags\<close> property that the caller's object already carries stays in
  place, and the filter works with it.
\<close>

theorem caller_tags_survive_counterexample:
  "new_IoTransitWB
     (JObj [(''appletId'', JStr ''lights''), (''accepts'', JNum 7),
            (''acceptTags'', JArr [JStr ''lights''])]) =
   Inr \<lparr>options =
          [(''appletId'', JStr ''lights''), (''accepts'', JNum 7),
           (''acceptTags'', JArr [JStr ''lights'']),
           (''authUser'', JStr ''api1''), (''authPass'', JStr ''external''),
           (''websocketBridgeUri'', JStr ''127.0.0.1''), (''websocketBridgePort'', JNum 444),
           (''websocketBridgeSubProtocol'', JStr ''wb.iotransit.net''),
           (''websocketBridgeOrigin'', JStr ''bridge''), (''autoReconnect'', JBool True),
           (''reconnectionTimer'', JNum 5000), (''secureWebSocket'', JBool True)],
        websocketBridgeConnected = False, authDevice = [], authDomain = [],
        authenticated = False, wb = None\<rparr> \<and>
   map_sum id (manager_events \<circ> trace)
     (session scenario_JSON
        (JObj [(''appletId'', JStr ''lights''), (''accepts'', JNum 7),
               (''acceptTags'', JArr [JStr ''lights''])])
        [CallConnect, Connect 0, ConnMessage 0 (Utf8 frame_all)]) =
   Inr [(''connection'', JStr ''websocket bridge connected''),
        (''wbMessage'', JObj [(''t'', JStr ''all''), (''p'', JObj [(''shutdown'', JBool True)])])]"
  by code_simp

text \<open>
  C10, amended. When \<^verbatim>\<open>accepts\<close> is supplied and is neither a string nor an array, and
  the caller's object has no \<^verbatim>\<open>acceptTags\<close> property of its own, construction
  succeeds and leaves \<^verbatim>\<open>acceptTags\<close> unset. From then on, on every connection the
  manager ever has, the handler of a text frame that decodes to an object calls
  \<^verbatim>\<open>indexOf\<close> on \<^verbatim>\<open>undefined\<close> and throws a TypeError, whatever the tag, the
  broadcast tag included.
\<close>

theorem unset_tags_break_filter:
  assumes "hasOwnProperty kvs ''appletId''"
    and "hasOwnProperty kvs ''accepts''"
    and "\<not> is_string (get_prop kvs ''accepts'')"
    and "\<not> isArray (get_prop kvs ''accepts'')"
    and "\<not> hasOwnProperty kvs ''acceptTags''"
  shows "\<exists>m. new_IoTransitWB (JObj kvs) = Inr m \<and>
           \<not> hasOwnProperty (options m) ''acceptTags'' \<and>
           get_prop (options m) ''acceptTags'' = JUndefined \<and>
           (\<forall>B evs w c utf8Data rcv.
               run B evs (new_world m) = Inr w \<longrightarrow> c < length (conns w) \<longrightarrow>
               JSON_parse B utf8Data = Some (JObj rcv) \<longrightarrow>
               step B (ConnMessage c (Utf8 utf8Data)) w = Inl (JsTypeError ''indexOf''))"
proof -
  let ?m = "\<lparr>options = set_defaults (set_acceptTags kvs), websocketBridgeConnected = False,
             authDevice = [], authDomain = [], authenticated = False, wb = None\<rparr>"
  have same: "set_acceptTags kvs = kvs"
    using assms(2-4) by (simp add: set_acceptTags_def)
  have new: "new_IoTransitWB (JObj kvs) = Inr ?m"
    using assms(1) by (rule new_object)
  have unset: "\<not> hasOwnProperty (options ?m) ''acceptTags''"
    using assms(5) by (simp add: same has_set_defaults_acceptTags)
  then have undef: "get_prop (options ?m) ''acceptTags'' = JUndefined"
    by (rule get_prop_absent)
  have "step B (ConnMessage c (Utf8 utf8Data)) w = Inl (JsTypeError ''indexOf'')"
    if "run B evs (new_world ?m) = Inr w" "c < length (conns w)"
       "JSON_parse B utf8Data = Some (JObj rcv)" for B evs w c utf8Data rcv
  proof -
    have "options (mgr w) = options ?m"
      using that(1) consistent_reached [of B evs ?m w] by (simp add: consistent_def)
    then show ?thesis
      using that(2,3) undef by (simp add: on_message_def)
  qed
  then show ?thesis
    using new unset undef by blast
qed

theorem unset_tags_break_filter_witness:
  "hasOwnProperty [(''appletId'', JStr ''lights''), (''accepts'', JNum 7)] ''appletId'' \<and>
   hasOwnProperty [(''appletId'', JStr ''lights''), (''accepts'', JNum 7)] ''accepts'' \<and>
   \<not> is_string (get_prop [(''appletId'', JStr ''lights''), (''accepts'', JNum 7)] ''accepts'') \<and>
   \<not> isArray (get_prop [(''appletId'', JStr ''lights''), (''accepts'', JNum 7)] ''accepts'') \<and>
   \<not> hasOwnProperty [(''appletId'', JStr ''lights''), (''accepts'', JNum 7)] ''acceptTags'' \<and>
   session scenario_JSON (JObj [(''appletId'', JStr ''lights''), (''accepts'', JNum 7)])
     [CallConnect, Connect 0, ConnMessage 0 (Utf8 frame_all)] = Inl (JsTypeError ''indexOf'')"
proof -
  let ?kvs = "[(''appletId'', JStr ''lights''), (''accepts'', JNum 7)]"
  have h: "hasOwnProperty ?kvs ''appletId''" "hasOwnProperty ?kvs ''accepts''"
    "\<not> is_string (get_prop ?kvs ''accepts'')" "\<not> isArray (get_prop ?kvs ''accepts'')"
    "\<not> hasOwnProperty ?kvs ''acceptTags''"
    by (simp_all add: hasOwnProperty_def get_prop_def)
  from unset_tags_break_filter [OF h] obtain m where
    m: "new_IoTransitWB (JObj ?kvs) = Inr m"
    and f: "\<And>B evs w c utf8Data rcv.
               run B evs (new_world m) = Inr w \<Longrightarrow> c < length (conns w) \<Longrightarrow>
               JSON_parse B utf8Data = Some (JObj rcv) \<Longrightarrow>
               step B (ConnMessage c (Utf8 utf8Data)) w = Inl (JsTypeError ''indexOf'')"
    by blast
  obtain w where w: "run scenario_JSON [CallConnect, Connect 0] (new_world m) = Inr w"
    and c: "0 < length (conns w)"
    by (simp add: connect_eq on_connect_eq new_world_def)
  have "run scenario_JSON ([CallConnect, Connect 0] @ [ConnMessage 0 (Utf8 frame_all)]) (new_world m) =
          Inl (JsTypeError ''indexOf'')"
    unfolding run_snoc using w f [OF w c parse_scenario(3)] by simp
  then show ?thesis
    using h m by (simp add: session_def)
qed

section \<open>Claims about the connection\<close>

text \<open>
  C1. In every world a manager reaches, if its accepted tags are the list \<open>tags\<close> and
  a text frame decodes to an object whose \<^verbatim>\<open>t\<close> field is \<open>t\<close>, the handler emits
  exactly one \<^verbatim>\<open>wbMessage\<close> carrying the whole decoded object when \<open>t\<close> is a
  member of \<open>tags\<close> or is the string \<^verbatim>\<open>all\<close>, and otherwise does nothing at all.
  Membership is that of \<^verbatim>\<open>indexOf\<close>: a decoded array or object is a new object and
  is a member of nothing.
\<close>

theorem inbound_filter:
  assumes "run B evs (new_world m) = Inr w"
    and "c < length (conns w)"
    and "get_prop (options m) ''acceptTags'' = JArr tags"
    and "JSON_parse B utf8Data = Some (JObj kvs)"
  shows "step B (ConnMessage c (Utf8 utf8Data)) w =
           Inr (if (get_prop kvs ''t'' \<in> set tags \<and> \<not> is_reference (get_prop kvs ''t'')) \<or>
                   get_prop kvs ''t'' = JStr ''all''
                then w\<lparr>trace := trace w @ [Emit OnManager ''wbMessage'' (JObj kvs)]\<rparr>
                else w)"
proof -
  have "options (mgr w) = options m"
    using assms(1) consistent_reached by (simp add: consistent_def)
  then show ?thesis
    using assms(2-4)
    by (simp add: on_message_def array_indexOf_found emit_def log_effect_def)
qed

theorem inbound_filter_witness:
  "run scenario_JSON [CallConnect, Connect 0] (new_world lights_manager) = Inr lights_connected \<and>
   0 < length (conns lights_connected) \<and>
   get_prop (options lights_manager) ''acceptTags'' = JArr [JStr ''lights''] \<and>
   JSON_parse scenario_JSON frame_lights =
     Some (JObj [(''t'', JStr ''lights''), (''p'', JObj [(''on'', JBool True)])]) \<and>
   JSON_parse scenario_JSON frame_thermostat =
     Some (JObj [(''t'', JStr ''thermostat''), (''p'', JObj [])]) \<and>
   JSON_parse scenario_JSON frame_all =
     Some (JObj [(''t'', JStr ''all''), (''p'', JObj [(''shutdown'', JBool True)])]) \<and>
   step scenario_JSON (ConnMessage 0 (Utf8 frame_lights)) lights_connected =
     Inr (lights_connected\<lparr>trace := trace lights_connected @
            [Emit OnManager ''wbMessage''
               (JObj [(''t'', JStr ''lights''), (''p'', JObj [(''on'', JBool True)])])]\<rparr>) \<and>
   step scenario_JSON (ConnMessage 0 (Utf8 frame_thermostat)) lights_connected =
     Inr lights_connected \<and>
   step scenario_JSON (ConnMessage 0 (Utf8 frame_all)) lights_connected =
     Inr (lights_connected\<lparr>trace := trace lights_connected @
            [Emit OnManager ''wbMessage''
               (JObj [(''t'', JStr ''all''), (''p'', JObj [(''shutdown'', JBool True)])])]\<rparr>)"
proof -
  have c: "0 < length (conns lights_connected)"
    by (simp add: lights_connected_def)
  have tags: "get_prop (options lights_manager) ''acceptTags'' = JArr [JStr ''lights'']"
    by (simp add: lights_manager_def get_prop_def)
  note f = inbound_filter [OF run_lights_connected c tags]
  show ?thesis
    using run_lights_connected c tags parse_scenario
      f [OF parse_scenario(1)] f [OF parse_scenario(2)] f [OF parse_scenario(3)]
    by (simp add: get_prop_def)
qed

text \<open>
  C2. The claim is that \<^verbatim>\<open>sendWB\<close> never throws while no connection is open, a
  manager that never connected included. The guard of line 141 reads
  \<^verbatim>\<open>this.wb.connection\<close>, and \<^verbatim>\<open>this.wb\<close> is undefined until \<^verbatim>\<open>connect()\<close>
  has run: on a fresh manager the call throws a TypeError and emits nothing.
\<close>

theorem sendWB_before_connect_throws:
  "session B (JStr ''lights'') [CallSendWB sendMsg] = Inl (JsTypeError ''connection'')"
  by (simp add: session_def new_lights sendWB_def new_world_def lights_manager_def)

text \<open>
  C3. In every world a manager reaches, the close of one of its connections makes it
  emit \<^verbatim>\<open>connectionClose\<close> and nothing else, and marks the bridge as not connected.
  With \<^verbatim>\<open>autoReconnect\<close> truthy exactly one timer is added, with the configured
  delay; when it fires, one connection attempt is made, with the URL, subprotocol and
  origin that every earlier attempt had. With \<^verbatim>\<open>autoReconnect\<close> falsy no timer is
  pending, and however the run goes on, no attempt is made before the caller calls
  \<^verbatim>\<open>connect()\<close> again.
\<close>

theorem close_then_retry_policy:
  assumes "run B evs (new_world m) = Inr w" and "c < length (conns w)"
  shows "\<exists>w'. step B (ConnClose c) w = Inr w' \<and>
           trace w' = trace w @
             [Emit OnManager ''connectionClose'' (JStr ''websocket bridge connection closed'')] \<and>
           \<not> websocketBridgeConnected (mgr w') \<and>
           (truthy (get_prop (options m) ''autoReconnect'') \<longrightarrow>
              timers w' = timers w @
                [Reconnect (scheme (options m)) (get_prop (options m) ''reconnectionTimer'')] \<and>
              (\<exists>k w''. step B (TimerFire (length (timers w))) w' = Inr w'' \<and>
                  trace w'' = trace w' @ [attempt_of (options m) k] \<and> timers w'' = timers w) \<and>
              attempts (trace w) \<noteq> [] \<and>
              (\<forall>e \<in> set (attempts (trace w)). \<exists>k. e = attempt_of (options m) k)) \<and>
           (\<not> truthy (get_prop (options m) ''autoReconnect'') \<longrightarrow>
              timers w' = [] \<and>
              (\<forall>evs' w''. CallConnect \<notin> set evs' \<longrightarrow> run B evs' w' = Inr w'' \<longrightarrow>
                  attempts (trace w'') = attempts (trace w)))"
proof -
  let ?opts = "options m"
  let ?w' = "on_close c w"
  have inv: "consistent ?opts w"
    using assms(1) by (rule consistent_reached)
  have opts: "options (mgr w) = ?opts"
    using inv by (simp add: consistent_def)
  have prefix: "conn_prefix (conns w ! c) = scheme ?opts"
    using inv assms(2) by (simp add: consistent_def)
  obtain k where k: "wb (mgr w) = Some k"
    using inv assms(2) by (auto simp: consistent_def)
  have some: "attempts (trace w) \<noteq> []"
    using inv assms(2) by (auto simp: consistent_def)
  have same: "\<forall>e \<in> set (attempts (trace w)). \<exists>k. e = attempt_of ?opts k"
    using inv by (simp add: consistent_def)
  have step: "step B (ConnClose c) w = Inr ?w'"
    using assms(2) by simp
  have inv': "consistent ?opts ?w'"
    using inv assms(2) by (rule consistent_on_close)
  have tr: "trace ?w' = trace w @
             [Emit OnManager ''connectionClose'' (JStr ''websocket bridge connection closed'')]"
    and down: "\<not> websocketBridgeConnected (mgr ?w')"
    by (simp_all add: on_close_eq)
  have on: "timers ?w' = timers w @
                [Reconnect (scheme ?opts) (get_prop ?opts ''reconnectionTimer'')] \<and>
              (\<exists>k w''. step B (TimerFire (length (timers w))) ?w' = Inr w'' \<and>
                  trace w'' = trace ?w' @ [attempt_of ?opts k] \<and> timers w'' = timers w)"
    if "truthy (get_prop ?opts ''autoReconnect'')"
  proof -
    have ts: "timers ?w' = timers w @
                [Reconnect (scheme ?opts) (get_prop ?opts ''reconnectionTimer'')]"
      using that by (simp add: on_close_eq opts prefix)
    have nth: "timers ?w' ! length (timers w) =
                 Reconnect (scheme ?opts) (get_prop ?opts ''reconnectionTimer'')"
      by (simp add: ts)
    have k': "wb (mgr ?w') = Some k"
      using k by (simp add: on_close_eq)
    have o': "options (mgr ?w') = ?opts"
      using opts by (simp add: on_close_eq)
    have "fire (length (timers w)) ?w' =
            Inr (?w'\<lparr>timers := take (length (timers w)) (timers ?w') @
                                drop (Suc (length (timers w))) (timers ?w'),
                      trace := trace ?w' @ [attempt_of ?opts k]\<rparr>)"
      using fire_eq [OF k' nth] by (simp add: o' attempt_of_def)
    then have "step B (TimerFire (length (timers w))) ?w' =
            Inr (?w'\<lparr>timers := timers w, trace := trace ?w' @ [attempt_of ?opts k]\<rparr>)"
      by (simp add: ts)
    then show ?thesis
      using ts by auto
  qed
  have off: "timers ?w' = [] \<and>
              (\<forall>evs' w''. CallConnect \<notin> set evs' \<longrightarrow> run B evs' ?w' = Inr w'' \<longrightarrow>
                  attempts (trace w'') = attempts (trace w))"
    if "\<not> truthy (get_prop ?opts ''autoReconnect'')"
  proof -
    have "timers ?w' = []"
      using inv' that by (simp add: consistent_def)
    moreover have "attempts (trace w'') = attempts (trace w)"
      if "CallConnect \<notin> set evs'" "run B evs' ?w' = Inr w''" for evs' w''
    proof -
      have "attempts (trace w'') = attempts (trace ?w')"
        using inv' \<open>\<not> truthy (get_prop ?opts ''autoReconnect'')\<close> that
        by (rule no_attempt_run)
      then show ?thesis by (simp add: tr)
    qed
    ultimately show ?thesis by blast
  qed
  show ?thesis
    using step tr down on off some same by blast
qed

theorem close_then_retry_policy_witness:
  "run scenario_JSON [CallConnect, Connect 0] (new_world lights_manager) = Inr lights_connected \<and>
   run scenario_JSON [CallConnect, Connect 0] (new_world quiet_manager) = Inr quiet_connected \<and>
   0 < length (conns lights_connected) \<and> 0 < length (conns quiet_connected) \<and>
   truthy (get_prop (options lights_manager) ''autoReconnect'') \<and>
   \<not> truthy (get_prop (options quiet_manager) ''autoReconnect'') \<and>
   (\<exists>w'. step scenario_JSON (ConnClose 0) lights_connected = Inr w' \<and>
         timers w' = [Reconnect ''wss://'' (JNum 5000)] \<and>
         (\<exists>k w''. step scenario_JSON (TimerFire 0) w' = Inr w'' \<and>
             trace w'' = trace w' @
               [ClientConnect k ''wss://127.0.0.1:444/'' (JStr ''wb.iotransit.net'')
                  (JStr ''bridge'')])) \<and>
   (\<exists>w' w''. step scenario_JSON (ConnClose 0) quiet_connected = Inr w' \<and> timers w' = [] \<and>
         run scenario_JSON [TimerFire 0, ConnMessage 0 (Utf8 frame_all), CallDisconnect] w' =
           Inr w'' \<and>
         attempts (trace w'') =
           [ClientConnect 0 ''wss://127.0.0.1:444/'' (JStr ''wb.iotransit.net'') (JStr ''bridge'')])"
proof -
  have c: "0 < length (conns lights_connected)" "0 < length (conns quiet_connected)"
    by (simp_all add: lights_connected_def quiet_connected_def)
  have a: "truthy (get_prop (options lights_manager) ''autoReconnect'')"
    "\<not> truthy (get_prop (options quiet_manager) ''autoReconnect'')"
    by (simp_all add: lights_manager_def quiet_manager_def get_prop_def)
  have g: "get_prop (options lights_manager) ''reconnectionTimer'' = JNum 5000"
    "get_prop (options lights_manager) ''websocketBridgeSubProtocol'' = JStr ''wb.iotransit.net''"
    "get_prop (options lights_manager) ''websocketBridgeOrigin'' = JStr ''bridge''"
    by (simp_all add: lights_manager_def get_prop_def)
  have t: "timers lights_connected = []"
    "attempts (trace quiet_connected) =
       [ClientConnect 0 ''wss://127.0.0.1:444/'' (JStr ''wb.iotransit.net'') (JStr ''bridge'')]"
    by (simp_all add: lights_connected_def quiet_connected_def attempts_def)
  from close_then_retry_policy [OF run_lights_connected c(1)] a(1)
  obtain v' k v'' where v: "step scenario_JSON (ConnClose 0) lights_connected = Inr v'"
    "timers v' = timers lights_connected @
       [Reconnect (scheme (options lights_manager))
          (get_prop (options lights_manager) ''reconnectionTimer'')]"
    "step scenario_JSON (TimerFire (length (timers lights_connected))) v' = Inr v''"
    "trace v'' = trace v' @ [attempt_of (options lights_manager) k]"
    by blast
  have v2: "timers v' = [Reconnect ''wss://'' (JNum 5000)]"
    using v(2) by (simp add: g t scenario_scheme)
  have v3: "step scenario_JSON (TimerFire 0) v' = Inr v''"
    using v(3) by (simp add: t)
  have v4: "trace v'' = trace v' @
               [ClientConnect k ''wss://127.0.0.1:444/'' (JStr ''wb.iotransit.net'')
                  (JStr ''bridge'')]"
    using v(4) by (simp add: attempt_of_def scenario_scheme scenario_url g)
  have first: "\<exists>w'. step scenario_JSON (ConnClose 0) lights_connected = Inr w' \<and>
         timers w' = [Reconnect ''wss://'' (JNum 5000)] \<and>
         (\<exists>k w''. step scenario_JSON (TimerFire 0) w' = Inr w'' \<and>
             trace w'' = trace w' @
               [ClientConnect k ''wss://127.0.0.1:444/'' (JStr ''wb.iotransit.net'')
                  (JStr ''bridge'')])"
    using v(1) v2 v3 v4 by blast
  from close_then_retry_policy [OF run_quiet_connected c(2)] a(2)
  obtain w' where w': "step scenario_JSON (ConnClose 0) quiet_connected = Inr w'"
    "timers w' = []"
    and rest: "\<And>evs' w''. CallConnect \<notin> set evs' \<Longrightarrow> run scenario_JSON evs' w' = Inr w'' \<Longrightarrow>
                attempts (trace w'') = attempts (trace quiet_connected)"
    by blast
  have w'_eq: "w' = on_close 0 quiet_connected"
    using w'(1) c(2) by simp
  have "\<not> isl (run scenario_JSON [TimerFire 0, ConnMessage 0 (Utf8 frame_all), CallDisconnect]
                 (on_close 0 quiet_connected))"
    unfolding quiet_connected_def quiet_manager_def by code_simp
  then obtain w'' where
    w'': "run scenario_JSON [TimerFire 0, ConnMessage 0 (Utf8 frame_all), CallDisconnect] w' = Inr w''"
    unfolding w'_eq by (metis sum.collapse(2))
  have "CallConnect \<notin> set [TimerFire 0, ConnMessage 0 (Utf8 frame_all), CallDisconnect]"
    by simp
  then have "attempts (trace w'') = attempts (trace quiet_connected)"
    using w'' by (rule rest)
  with w' w'' t(2) have second:
    "\<exists>w' w''. step scenario_JSON (ConnClose 0) quiet_connected = Inr w' \<and> timers w' = [] \<and>
         run scenario_JSON [TimerFire 0, ConnMessage 0 (Utf8 frame_all), CallDisconnect] w' =
           Inr w'' \<and>
         attempts (trace w'') =
           [ClientConnect 0 ''wss://127.0.0.1:444/'' (JStr ''wb.iotransit.net'') (JStr ''bridge'')]"
    by auto
  show ?thesis
    by (intro conjI run_lights_connected run_quiet_connected c a first second)
qed

text \<open>
  C4. In every world a manager reaches, when one of its clients reports a connection the
  handler first sends one text frame, the JSON text of
  \<^verbatim>\<open>{t: 'authapp', p: {user, pass, accept}}\<close> with the manager's \<^verbatim>\<open>authUser\<close>,
  \<^verbatim>\<open>authPass\<close> and \<^verbatim>\<open>acceptTags\<close>, on the new connection, and then emits
  \<^verbatim>\<open>connection\<close>; it does nothing else that can be observed, so the frames written
  grow by exactly one.
\<close>

theorem auth_request_then_connection_event:
  assumes "run B evs (new_world m) = Inr w" and "k < length (clients w)"
  shows "\<exists>w'. step B (Connect k) w = Inr w' \<and>
           trace w' = trace w @
             [ConnSendUTF (length (conns w))
                (JSON_stringify B
                   (JObj [(''t'', JStr ''authapp''),
                          (''p'', JObj [(''user'', get_prop (options m) ''authUser''),
                                        (''pass'', get_prop (options m) ''authPass''),
                                        (''accept'', get_prop (options m) ''acceptTags'')])])),
              Emit OnManager ''connection'' (JStr ''websocket bridge connected'')] \<and>
           length (writes (trace w')) = Suc (length (writes (trace w))) \<and>
           websocketBridgeConnected (mgr w')"
proof -
  have inv: "consistent (options m) w"
    using assms(1) by (rule consistent_reached)
  then obtain k' where "wb (mgr w) = Some k'"
    using assms(2) by (auto simp: consistent_def)
  moreover have "options (mgr w) = options m"
    using inv by (simp add: consistent_def)
  ultimately show ?thesis
    using assms(2) by (simp add: on_connect_eq auth_request_def writes_def)
qed

theorem auth_request_then_connection_event_witness:
  "run scenario_JSON [CallConnect] (new_world lights_manager) =
     Inr \<lparr>mgr = lights_manager\<lparr>wb := Some 0\<rparr>,
          clients = [\<lparr>connection = None, client_prefix = ''wss://''\<rparr>],
          conns = [],
          trace = [ClientConnect 0 ''wss://127.0.0.1:444/'' (JStr ''wb.iotransit.net'')
                     (JStr ''bridge'')],
          timers = []\<rparr> \<and>
   (\<exists>w'. step scenario_JSON (Connect 0)
            \<lparr>mgr = lights_manager\<lparr>wb := Some 0\<rparr>,
             clients = [\<lparr>connection = None, client_prefix = ''wss://''\<rparr>],
             conns = [],
             trace = [ClientConnect 0 ''wss://127.0.0.1:444/'' (JStr ''wb.iotransit.net'')
                        (JStr ''bridge'')],
             timers = []\<rparr> = Inr w' \<and>
          trace w' =
            [ClientConnect 0 ''wss://127.0.0.1:444/'' (JStr ''wb.iotransit.net'') (JStr ''bridge''),
             ConnSendUTF 0
               (JSON_stringify scenario_JSON
                  (JObj [(''t'', JStr ''authapp''),
                         (''p'', JObj [(''user'', JStr ''api1''), (''pass'', JStr ''external''),
                                       (''accept'', JArr [JStr ''lights''])])])),
             Emit OnManager ''connection'' (JStr ''websocket bridge connected'')])"
proof -
  have r: "run scenario_JSON [CallConnect] (new_world lights_manager) =
     Inr \<lparr>mgr = lights_manager\<lparr>wb := Some 0\<rparr>,
          clients = [\<lparr>connection = None, client_prefix = ''wss://''\<rparr>],
          conns = [],
          trace = [ClientConnect 0 ''wss://127.0.0.1:444/'' (JStr ''wb.iotransit.net'')
                     (JStr ''bridge'')],
          timers = []\<rparr>"
    unfolding lights_manager_def by code_simp
  have g: "get_prop (options lights_manager) ''authUser'' = JStr ''api1''"
    "get_prop (options lights_manager) ''authPass'' = JStr ''external''"
    "get_prop (options lights_manager) ''acceptTags'' = JArr [JStr ''lights'']"
    by (simp_all add: lights_manager_def get_prop_def)
  from auth_request_then_connection_event [OF r] g r show ?thesis
    by auto
qed

text \<open>
  C7. The claim is that an error reported on the live connection reaches the manager's
  subscribers as \<^verbatim>\<open>connectionError\<close>. The handler of line 98 is an ordinary
  function, so its \<^verbatim>\<open>this\<close> is the connection and the event is emitted there: after
  \<^verbatim>\<open>connect()\<close>, a connect event and an error, the manager's subscribers have
  received \<^verbatim>\<open>connection\<close> and nothing more. The connection stays up, as claimed.
\<close>

theorem transport_error_not_on_manager:
  "\<exists>w. session B (JStr ''lights'') [CallConnect, Connect 0, ConnError 0 err] = Inr w \<and>
        trace w =
          [ClientConnect 0 ''wss://127.0.0.1:444/'' (JStr ''wb.iotransit.net'') (JStr ''bridge''),
           ConnSendUTF 0 (JSON_stringify B (auth_request (options lights_manager))),
           Emit OnManager ''connection'' (JStr ''websocket bridge connected''),
           Emit (OnConnection 0) ''connectionError'' (JStr err)] \<and>
        manager_events (trace w) = [(''connection'', JStr ''websocket bridge connected'')] \<and>
        websocketBridgeConnected (mgr w) \<and> connected (conns w ! 0)"
proof -
  have "get_prop (options lights_manager) ''websocketBridgeSubProtocol'' = JStr ''wb.iotransit.net''"
    and "get_prop (options lights_manager) ''websocketBridgeOrigin'' = JStr ''bridge''"
    by (simp_all add: lights_manager_def get_prop_def)
  then show ?thesis
    by (simp add: session_def new_lights connect_eq on_connect_eq on_error_def log_effect_def
          new_world_def attempt_of_def scenario_scheme scenario_url)
qed

end
